theory Spec2Isabelle
  imports Main "HOL-Library.Char_ord" "HOL-Library.List_Lexorder"
begin

section \<open>The atomic store\<close>

text \<open>
  The lock engine of \<^verbatim>\<open>src/protomesh/core/lock_manager.py\<close> keeps all of its state in
  a Redis server and mutates it through Lua scripts, each of which Redis runs as one
  atomic step. The store is modelled by one map per Redis type the engine uses:
  string keys (\<^verbatim>\<open>lock:\<close>, \<^verbatim>\<open>agent_lock:\<close>, \<^verbatim>\<open>cancel:\<close>), hashes (\<^verbatim>\<open>lock_meta:\<close>) and
  sorted sets (\<^verbatim>\<open>queue:\<close>). Strings and hashes carry the time-to-live last set on
  them, in seconds (\<open>None\<close>: no expiry). The string key \<^verbatim>\<open>lock_id_counter\<close>, touched by
  \<^verbatim>\<open>INCR\<close> alone, is kept as its integer value. Published messages are logged.

  Redis has one key space, and a command on a key of another type fails. The engine's
  key prefixes are specific to a type, so no key it builds names values of two types;
  every command of the model acts on the map of its own type, and the type-agnostic
  \<^verbatim>\<open>DEL\<close> and \<^verbatim>\<open>EXPIRE\<close> act on all of them.
\<close>

record store =
  strs :: "string \<Rightarrow> (string \<times> int option) option"
  hashes :: "string \<Rightarrow> ((string \<times> string) list \<times> int option) option"
  zsets :: "string \<Rightarrow> (string \<times> int) list"
  lock_id_counter :: int
  published :: "(string \<times> string) list"

text \<open>
  A script that raises ends \<^verbatim>\<open>redis.eval\<close> with the exception \<^verbatim>\<open>ResponseError\<close>; what it has
  written before stays written. The text of the exception depends on the version of
  the server, so the exception is kept by its cause: an expire time that the server
  refuses, the read of a global variable that does not exist, the concatenation of
  nil, and nil as the argument of a command.
\<close>

datatype failure = InvalidExpireTime | UndefinedGlobal | NilConcatenation | NilArgument

datatype error = ResponseError failure

definition redis_get :: "store \<Rightarrow> string \<Rightarrow> string option" where
  "redis_get s k = map_option fst (strs s k)"

definition redis_exists :: "store \<Rightarrow> string \<Rightarrow> bool" where
  "redis_exists s k = (strs s k \<noteq> None \<or> hashes s k \<noteq> None \<or> zsets s k \<noteq> [])"

definition redis_del :: "store \<Rightarrow> string \<Rightarrow> store" where
  "redis_del s k =
     s\<lparr>strs := (strs s)(k := None), hashes := (hashes s)(k := None),
       zsets := (zsets s)(k := [])\<rparr>"

text \<open>
  \<^verbatim>\<open>SET k v EX t\<close>, for a time \<open>t\<close> that the server accepts (\<open>set_ex_refused\<close> below; the
  scripts test it where they call the command).
\<close>

definition redis_set_ex :: "store \<Rightarrow> string \<Rightarrow> string \<Rightarrow> int \<Rightarrow> store" where
  "redis_set_ex s k v t = s\<lparr>strs := (strs s)(k \<mapsto> (v, Some t))\<rparr>"

text \<open>
  \<^verbatim>\<open>EXPIRE k t\<close>, for a time that the server accepts (\<open>expire_refused\<close> below): a key that
  does not exist is left alone (reply 0); a time that is not positive deletes the key;
  otherwise the time-to-live is replaced (reply 1).
\<close>

definition redis_expire :: "store \<Rightarrow> string \<Rightarrow> int \<Rightarrow> store \<times> int" where
  "redis_expire s k t =
     (if \<not> redis_exists s k then (s, 0)
      else if t \<le> 0 then (redis_del s k, 1)
      else (s\<lparr>strs := (case strs s k of None \<Rightarrow> strs s
                        | Some (v, _) \<Rightarrow> (strs s)(k \<mapsto> (v, Some t))),
              hashes := (case hashes s k of None \<Rightarrow> hashes s
                        | Some (h, _) \<Rightarrow> (hashes s)(k \<mapsto> (h, Some t)))\<rparr>, 1))"

definition redis_hgetall :: "store \<Rightarrow> string \<Rightarrow> (string \<times> string) list" where
  "redis_hgetall s k = (case hashes s k of None \<Rightarrow> [] | Some (h, _) \<Rightarrow> h)"

text \<open>\<^verbatim>\<open>HSET k f1 v1 ...\<close>: the fields given are replaced, the others and the time-to-live kept.\<close>

definition redis_hset :: "store \<Rightarrow> string \<Rightarrow> (string \<times> string) list \<Rightarrow> store" where
  "redis_hset s k fvs =
     (let (old, t) = (case hashes s k of None \<Rightarrow> ([], None) | Some e \<Rightarrow> e)
      in s\<lparr>hashes := (hashes s)(k \<mapsto> (fvs @ [p \<leftarrow> old. fst p \<notin> set (map fst fvs)], t))\<rparr>)"

definition redis_publish :: "store \<Rightarrow> string \<Rightarrow> string \<Rightarrow> store" where
  "redis_publish s channel payload = s\<lparr>published := published s @ [(channel, payload)]\<rparr>"

subsection \<open>Sorted sets\<close>

text \<open>
  A sorted set is a list of (member, score) pairs. Redis orders it by score and, among
  equal scores, by the bytes of the member.
\<close>

definition zbefore :: "string \<times> int \<Rightarrow> string \<times> int \<Rightarrow> bool" where
  "zbefore a b = (snd a < snd b \<or> (snd a = snd b \<and> fst a < fst b))"

definition zscore :: "(string \<times> int) list \<Rightarrow> string \<Rightarrow> int option" where
  "zscore q m = map_of q m"

definition zrank :: "(string \<times> int) list \<Rightarrow> string \<Rightarrow> nat option" where
  "zrank q m =
     (case map_of q m of None \<Rightarrow> None
      | Some sc \<Rightarrow> Some (length [p \<leftarrow> q. zbefore p (m, sc)]))"

definition zadd :: "(string \<times> int) list \<Rightarrow> int \<Rightarrow> string \<Rightarrow> (string \<times> int) list" where
  "zadd q sc m =
     (if map_of q m = None then q @ [(m, sc)]
      else map (\<lambda>p. if fst p = m then (m, sc) else p) q)"

definition zrem :: "(string \<times> int) list \<Rightarrow> string \<Rightarrow> (string \<times> int) list" where
  "zrem q m = [p \<leftarrow> q. fst p \<noteq> m]"

fun zmin :: "(string \<times> int) list \<Rightarrow> (string \<times> int) option" where
  "zmin [] = None"
| "zmin (p # q) =
     (case zmin q of None \<Rightarrow> Some p
      | Some r \<Rightarrow> if zbefore r p then Some r else Some p)"

text \<open>\<^verbatim>\<open>ZPOPMIN k 1\<close>: the first member in the order, and the set without it.\<close>

definition zpopmin :: "(string \<times> int) list \<Rightarrow> ((string \<times> int) \<times> (string \<times> int) list) option" where
  "zpopmin q = (case zmin q of None \<Rightarrow> None | Some p \<Rightarrow> Some (p, zrem q (fst p)))"

subsection \<open>Keys\<close>

definition lock_key_of :: "string \<Rightarrow> string \<Rightarrow> string" where
  "lock_key_of resource_type resource_id = ''lock:'' @ resource_type @ '':'' @ resource_id"

definition queue_key_of :: "string \<Rightarrow> string \<Rightarrow> string" where
  "queue_key_of resource_type resource_id = ''queue:'' @ resource_type @ '':'' @ resource_id"

definition agent_lock_key_of :: "string \<Rightarrow> string \<Rightarrow> string \<Rightarrow> string" where
  "agent_lock_key_of resource_type resource_id agent_id =
     ''agent_lock:'' @ resource_type @ '':'' @ resource_id @ '':'' @ agent_id"

definition cancel_key_of :: "string \<Rightarrow> string \<Rightarrow> string \<Rightarrow> string" where
  "cancel_key_of resource_type resource_id agent_id =
     ''cancel:'' @ resource_type @ '':'' @ resource_id @ '':'' @ agent_id"

definition lock_meta_key_of :: "string \<Rightarrow> string" where
  "lock_meta_key_of lock_id = ''lock_meta:'' @ lock_id"

subsection \<open>Numbers and timestamps as text\<close>

text \<open>
  Decimal digits of a natural number: what Lua's \<^verbatim>\<open>tostring\<close> prints for a counter and
  what \<^verbatim>\<open>TIME\<close> replies for the seconds of the store's clock.
\<close>

definition digit_char :: "nat \<Rightarrow> char" where
  "digit_char d =
     (if d = 0 then CHR ''0'' else if d = 1 then CHR ''1'' else if d = 2 then CHR ''2''
      else if d = 3 then CHR ''3'' else if d = 4 then CHR ''4'' else if d = 5 then CHR ''5''
      else if d = 6 then CHR ''6'' else if d = 7 then CHR ''7'' else if d = 8 then CHR ''8''
      else CHR ''9'')"

fun dec_str :: "nat \<Rightarrow> string" where
  "dec_str n = (if n < 10 then [digit_char n] else dec_str (n div 10) @ [digit_char (n mod 10)])"

declare dec_str.simps [simp del]



text \<open>
  Python's \<^verbatim>\<open>datetime.utcnow().isoformat()\<close>: a naive timestamp,
  \<^verbatim>\<open>YYYY-MM-DDTHH:MM:SS\<close>, followed by \<^verbatim>\<open>.ffffff\<close> when the microseconds are not zero.
\<close>

record datetime =
  year :: nat
  month :: nat
  day :: nat
  hour :: nat
  minute :: nat
  second :: nat
  microsecond :: nat

definition zero_pad :: "nat \<Rightarrow> nat \<Rightarrow> string" where
  "zero_pad w n = replicate (w - length (dec_str n)) CHR ''0'' @ dec_str n"

definition isoformat :: "datetime \<Rightarrow> string" where
  "isoformat d =
     zero_pad 4 (year d) @ ''-'' @ zero_pad 2 (month d) @ ''-'' @ zero_pad 2 (day d) @ ''T''
     @ zero_pad 2 (hour d) @ '':'' @ zero_pad 2 (minute d) @ '':'' @ zero_pad 2 (second d)
     @ (if microsecond d = 0 then [] else ''.'' @ zero_pad 6 (microsecond d))"

subsection \<open>Numbers in Lua, and expire times\<close>

text \<open>
  Python passes an integer to a script as its decimal text, and Lua's \<^verbatim>\<open>tonumber\<close> reads
  the text as a double: the integer itself when its absolute value is below \<open>2^53\<close>,
  and otherwise the nearest number with a mantissa of 53 bits, a tie going to the even
  mantissa. \<open>double_exponent n\<close> is the number of low bits that \<open>n\<close> loses. (Above the
  largest double, near \<open>2^1024\<close>, Lua reads infinity; the model keeps the rounded
  integer, which is refused as an expire time all the same.)
\<close>

function double_exponent :: "nat \<Rightarrow> nat" where
  "double_exponent n = (if n < 2 ^ 53 then 0 else Suc (double_exponent (n div 2)))"
  by pat_completeness auto
termination
  by (relation "measure id") auto

declare double_exponent.simps [simp del]

definition round_double :: "nat \<Rightarrow> nat" where
  "round_double n =
     (let e = double_exponent n;
          q = n div 2 ^ e;
          r = n mod 2 ^ e
      in if 2 * r < 2 ^ e \<or> (2 * r = 2 ^ e \<and> even q) then q * 2 ^ e else (q + 1) * 2 ^ e)"

definition lua_tonumber :: "int \<Rightarrow> int" where
  "lua_tonumber i = (if i < 0 then - int (round_double (nat (- i))) else int (round_double (nat i)))"

text \<open>
  The server keeps an expire time in milliseconds, in a signed integer of 64 bits, and
  refuses a time in seconds beyond \<open>max_expire\<close>, the largest such integer divided by
  1000. \<^verbatim>\<open>SET ... EX t\<close> also refuses a time that is not positive; \<^verbatim>\<open>EXPIRE\<close> takes one
  (and deletes the key). A command refuses before it reads or writes a key, and
  \<^verbatim>\<open>redis.call\<close> then raises. (The server also refuses a time whose sum with its clock
  overflows, which are times within \<open>10^10\<close> seconds of \<open>max_expire\<close>; the store has no
  clock, and the model takes those times as accepted.)
\<close>

definition max_expire :: int where
  "max_expire = 9223372036854775"

definition set_ex_refused :: "int \<Rightarrow> bool" where
  "set_ex_refused t = (t \<le> 0 \<or> max_expire < t)"

definition expire_refused :: "int \<Rightarrow> bool" where
  "expire_refused t = (t < - max_expire \<or> max_expire < t)"

section \<open>Acquire\<close>

text \<open>
  The reply of the acquire script is the Lua table \<^verbatim>\<open>{code, value}\<close>, or
  \<^verbatim>\<open>{2, ttl, existing_lock_id}\<close> on a re-entrant acquisition; \<open>None\<close> is Lua's nil.
\<close>

type_synonym acquire_reply = "int \<times> int option \<times> string option"

text \<open>
  Lines 84 to 129 of the script, reached when the caller does not hold the lock, and
  also when it holds the lock re-entrantly but its \<^verbatim>\<open>agent_lock\<close> mapping is missing.
  \<open>ttl\<close> and \<open>priority_score\<close> are the integers whose text is \<^verbatim>\<open>ARGV[2]\<close> and \<^verbatim>\<open>ARGV[7]\<close>.
  \<^verbatim>\<open>SET ... NX EX\<close> raises for a time that it refuses, before any write.
\<close>

definition acquire_or_queue ::
  "store \<Rightarrow> string \<Rightarrow> string \<Rightarrow> string \<Rightarrow> string \<Rightarrow> string \<Rightarrow> int \<Rightarrow> string \<Rightarrow> string
     \<Rightarrow> string \<Rightarrow> string \<Rightarrow> int \<Rightarrow> (error + acquire_reply) \<times> store" where
  "acquire_or_queue s lock_key lock_meta_key queue_key agent_lock_key agent_id ttl lock_id
       acquired_at resource_type resource_id priority_score =
     (if set_ex_refused (lua_tonumber ttl) then (Inl (ResponseError InvalidExpireTime), s)
      else if redis_get s lock_key = None then
        (let s1 = redis_set_ex s lock_key agent_id (lua_tonumber ttl);
             s2 = redis_hset s1 lock_meta_key
                    [(''lock_key'', lock_key), (''agent_id'', agent_id), (''lock_id'', lock_id),
                     (''acquired_at'', acquired_at), (''resource_type'', resource_type),
                     (''resource_id'', resource_id)];
             s3 = fst (redis_expire s2 lock_meta_key (lua_tonumber ttl));
             s4 = redis_set_ex s3 agent_lock_key lock_id (lua_tonumber ttl)
         in (Inr (1, Some (lua_tonumber ttl), None), s4))
      else
        (case zscore (zsets s queue_key) agent_id of
           Some _ \<Rightarrow>
             (let position = zrank (zsets s queue_key) agent_id;
                  s1 = redis_set_ex s agent_lock_key lock_id 3600
              in (Inr (0, map_option int position, None), s1))
         | None \<Rightarrow>
             (let s1 = s\<lparr>zsets := (zsets s)(queue_key :=
                                zadd (zsets s queue_key) (lua_tonumber priority_score) agent_id)\<rparr>;
                  s2 = redis_set_ex s1 agent_lock_key lock_id 3600;
                  position = zrank (zsets s2 queue_key) agent_id
              in (Inr (0, map_option int position, None), s2))))"

definition acquire_script ::
  "store \<Rightarrow> string \<Rightarrow> string \<Rightarrow> string \<Rightarrow> string \<Rightarrow> string \<Rightarrow> string \<Rightarrow> int \<Rightarrow> string
     \<Rightarrow> string \<Rightarrow> string \<Rightarrow> string \<Rightarrow> int \<Rightarrow> bool \<Rightarrow> (error + acquire_reply) \<times> store" where
  "acquire_script s lock_key lock_meta_key queue_key agent_lock_key cancel_key agent_id ttl
       lock_id acquired_at resource_type resource_id priority_score allow_reentrant =
     (case redis_get s cancel_key of
        Some _ \<Rightarrow> (Inr (- 1, Some 0, None), redis_del s cancel_key)
      | None \<Rightarrow>
          if redis_get s lock_key = Some agent_id then
            (if allow_reentrant then
               (case redis_get s agent_lock_key of
                  Some existing_lock_id \<Rightarrow>
                    (let ttl = lua_tonumber ttl in
                     if expire_refused ttl then (Inl (ResponseError InvalidExpireTime), s)
                     else
                       (let s1 = fst (redis_expire s lock_key ttl);
                            s2 = fst (redis_expire s1 (''lock_meta:'' @ existing_lock_id) ttl);
                            s3 = fst (redis_expire s2 agent_lock_key ttl)
                        in (Inr (2, Some ttl, Some existing_lock_id), s3)))
                | None \<Rightarrow>
                    acquire_or_queue s lock_key lock_meta_key queue_key agent_lock_key agent_id
                      ttl lock_id acquired_at resource_type resource_id priority_score)
             else (Inr (- 2, Some 0, None), s))
          else
            acquire_or_queue s lock_key lock_meta_key queue_key agent_lock_key agent_id
              ttl lock_id acquired_at resource_type resource_id priority_score)"

text \<open>
  The result dictionaries of \<^verbatim>\<open>acquire_lock\<close>, one constructor per \<^verbatim>\<open>status\<close>:
  \<^verbatim>\<open>cancelled\<close> and \<^verbatim>\<open>error\<close> with their message, \<^verbatim>\<open>acquired\<close> and \<^verbatim>\<open>already_owned\<close>
  with \<^verbatim>\<open>lock_id\<close> and \<^verbatim>\<open>expires_in\<close>, \<^verbatim>\<open>queued\<close> with \<^verbatim>\<open>lock_id\<close> and \<^verbatim>\<open>position\<close>.
\<close>

datatype acquire_result =
    AcqCancelled string
  | AcqError string
  | Acquired string "int option"
  | AlreadyOwned string "int option"
  | Queued string int

fun acquire_status :: "acquire_result \<Rightarrow> string" where
  "acquire_status (AcqCancelled _) = ''cancelled''"
| "acquire_status (AcqError _) = ''error''"
| "acquire_status (Acquired _ _) = ''acquired''"
| "acquire_status (AlreadyOwned _ _) = ''already_owned''"
| "acquire_status (Queued _ _) = ''queued''"

text \<open>\<^verbatim>\<open>ttl or self.default_ttl\<close>: the default for \<^verbatim>\<open>None\<close> and for 0.\<close>

definition effective_ttl :: "int \<Rightarrow> int option \<Rightarrow> int" where
  "effective_ttl default_ttl ttl =
     (case ttl of None \<Rightarrow> default_ttl | Some t \<Rightarrow> if t = 0 then default_ttl else t)"

text \<open>
  \<^verbatim>\<open>LockManager.acquire_lock\<close>. \<open>default_ttl\<close> is the manager's field; \<open>lock_id\<close> is the
  value of \<^verbatim>\<open>str(uuid.uuid4())\<close> and \<open>now\<close> that of \<^verbatim>\<open>datetime.utcnow()\<close> in this call.
  An error raised by the script leaves \<^verbatim>\<open>redis.eval\<close> as an exception.
\<close>

definition acquire_lock ::
  "int \<Rightarrow> store \<Rightarrow> string \<Rightarrow> datetime \<Rightarrow> string \<Rightarrow> string \<Rightarrow> string \<Rightarrow> int \<Rightarrow> int option \<Rightarrow> bool
     \<Rightarrow> (error + acquire_result) \<times> store" where
  "acquire_lock default_ttl s lock_id now resource_type resource_id agent_id priority ttl
       allow_reentrant =
     (let lock_key = lock_key_of resource_type resource_id;
          queue_key = queue_key_of resource_type resource_id;
          ttl' = effective_ttl default_ttl ttl;
          agent_lock_key = agent_lock_key_of resource_type resource_id agent_id;
          cancel_key = cancel_key_of resource_type resource_id agent_id
      in case acquire_script s lock_key (lock_meta_key_of lock_id) queue_key agent_lock_key
                cancel_key agent_id ttl' lock_id (isoformat now) resource_type resource_id
                (- priority) allow_reentrant of
           (Inl e, s') \<Rightarrow> (Inl e, s')
         | (Inr (status_code, v, existing), s') \<Rightarrow>
             (Inr (if status_code = - 1 then AcqCancelled ''Lock request was cancelled''
                   else if status_code = - 2 then
                     AcqError ''Agent already holds this lock (re-entrancy not allowed)''
                   else if status_code = 1 then Acquired lock_id v
                   else if status_code = 2 then
                     AlreadyOwned (case existing of Some l \<Rightarrow> l | None \<Rightarrow> lock_id) v
                   else Queued lock_id (case v of Some p \<Rightarrow> p + 1 | None \<Rightarrow> 1)), s'))"

section \<open>Cancel\<close>

text \<open>\<^verbatim>\<open>ZREM k m\<close>: the member is removed; the reply counts the members removed.\<close>

definition redis_zrem :: "store \<Rightarrow> string \<Rightarrow> string \<Rightarrow> store \<times> int" where
  "redis_zrem s k m =
     (s\<lparr>zsets := (zsets s)(k := zrem (zsets s k) m)\<rparr>,
      if zscore (zsets s k) m = None then 0 else 1)"

definition cancel_script ::
  "store \<Rightarrow> string \<Rightarrow> string \<Rightarrow> string \<Rightarrow> string \<Rightarrow> (int \<times> string) \<times> store" where
  "cancel_script s queue_key agent_lock_key cancel_key agent_id =
     (let (s1, removed) = redis_zrem s queue_key agent_id in
      if removed > 0 then ((1, ''removed_from_queue''), redis_del s1 agent_lock_key)
      else ((0, ''not_in_queue_flag_set''), redis_set_ex s1 cancel_key ''1'' 60))"

text \<open>The result dictionary \<^verbatim>\<open>{"status": "cancelled", "detail": detail}\<close>.\<close>

datatype cancel_result = Cancelled string

fun cancel_status :: "cancel_result \<Rightarrow> string" where
  "cancel_status (Cancelled _) = ''cancelled''"

fun cancel_detail :: "cancel_result \<Rightarrow> string" where
  "cancel_detail (Cancelled d) = d"

definition cancel_lock_request ::
  "store \<Rightarrow> string \<Rightarrow> string \<Rightarrow> string \<Rightarrow> cancel_result \<times> store" where
  "cancel_lock_request s resource_type resource_id agent_id =
     (case cancel_script s (queue_key_of resource_type resource_id)
              (agent_lock_key_of resource_type resource_id agent_id)
              (cancel_key_of resource_type resource_id agent_id) agent_id of
        ((_, detail), s') \<Rightarrow> (Cancelled detail, s'))"

section \<open>Status\<close>

text \<open>
  \<^verbatim>\<open>check_lock_status\<close> reads the store twice, with an \<^verbatim>\<open>await\<close> between the reads:
  \<open>s1\<close> is the store when the metadata is read and \<open>s2\<close> the store when the lock key
  is read. Python's \<^verbatim>\<open>not meta\<close> holds for the empty dictionary, \<^verbatim>\<open>if lock_key\<close> for a
  string that is not empty, \<^verbatim>\<open>not owner\<close> for \<^verbatim>\<open>None\<close> and for the empty string.
\<close>

datatype status_result =
    Expired
  | Active "string option" "string option" "string option" "string option"

definition check_lock_status :: "store \<Rightarrow> store \<Rightarrow> string \<Rightarrow> status_result" where
  "check_lock_status s1 s2 lock_id =
     (let meta = redis_hgetall s1 (''lock_meta:'' @ lock_id) in
      if meta = [] then Expired
      else
        let lock_key = map_of meta ''lock_key'';
            active = Active (map_of meta ''agent_id'') (map_of meta ''acquired_at'')
                       (map_of meta ''resource_type'') (map_of meta ''resource_id'')
        in (case lock_key of
              None \<Rightarrow> active
            | Some k \<Rightarrow>
                if k = [] then active
                else (case redis_get s2 k of
                        None \<Rightarrow> Expired
                      | Some owner \<Rightarrow> if owner = [] then Expired else active)))"

section \<open>Release\<close>

text \<open>
  Lua's \<^verbatim>\<open>string.gsub(lock_key, "lock:", "queue:")\<close>: every occurrence of \<^verbatim>\<open>lock:\<close> is
  replaced, from left to right (the pattern has no magic character).
\<close>

function gsub_lock_queue :: "string \<Rightarrow> string" where
  "gsub_lock_queue str =
     (if str = [] then []
      else if take 5 str = ''lock:'' then ''queue:'' @ gsub_lock_queue (drop 5 str)
      else hd str # gsub_lock_queue (tl str))"
  by pat_completeness auto
termination
  by (relation "measure length") auto

declare gsub_lock_queue.simps [simp del]

text \<open>
  The loop of lines 263 to 296: at most \<open>n\<close> more rounds, each popping the first member
  of the queue. A member whose cancel flag is set is dropped with its flag and its
  \<^verbatim>\<open>agent_lock\<close> mapping; the first other member ends the loop, with the lock id of its
  mapping or, when the mapping is missing, with a fallback id from a counter. The
  result is the store and \<^verbatim>\<open>(next_agent_id, next_lock_id)\<close>, \<open>None\<close> for nil.
\<close>

fun release_loop ::
  "nat \<Rightarrow> store \<Rightarrow> string \<Rightarrow> string \<Rightarrow> string \<Rightarrow> store \<times> (string \<times> string) option" where
  "release_loop 0 s queue_key resource_type resource_id = (s, None)"
| "release_loop (Suc n) s queue_key resource_type resource_id =
     (case zpopmin (zsets s queue_key) of
        None \<Rightarrow> (s, None)
      | Some (next_in_queue, remaining) \<Rightarrow>
          (let s1 = s\<lparr>zsets := (zsets s)(queue_key := remaining)\<rparr>;
               next_agent_id = fst next_in_queue;
               cancel_key = ''cancel:'' @ resource_type @ '':'' @ resource_id @ '':'' @ next_agent_id
           in case redis_get s1 cancel_key of
                Some _ \<Rightarrow>
                  (let s2 = redis_del s1 cancel_key;
                       s3 = redis_del s2 (''agent_lock:'' @ resource_type @ '':'' @ resource_id
                                           @ '':'' @ next_agent_id)
                   in release_loop n s3 queue_key resource_type resource_id)
              | None \<Rightarrow>
                  (case redis_get s1 (''agent_lock:'' @ resource_type @ '':'' @ resource_id
                                       @ '':'' @ next_agent_id) of
                     Some next_lock_id \<Rightarrow> (s1, Some (next_agent_id, next_lock_id))
                   | None \<Rightarrow>
                       (let counter = lock_id_counter s1 + 1;
                            s2 = s1\<lparr>lock_id_counter := counter\<rparr>
                        in (s2, Some (next_agent_id, ''fallback_'' @ dec_str (nat counter)))))))"

text \<open>The reply of the release script: the Lua table \<^verbatim>\<open>{code, text, text, text}\<close>.\<close>

type_synonym release_reply = "int \<times> string \<times> string \<times> string"

text \<open>
  Lines 317 to 334: the metadata of the next agent, its \<^verbatim>\<open>agent_lock\<close> mapping and the
  notification. \<open>time_sec\<close> is the first element of the reply of \<^verbatim>\<open>TIME\<close>.
\<close>

definition write_grant ::
  "store \<Rightarrow> string \<Rightarrow> string \<Rightarrow> string \<Rightarrow> string \<Rightarrow> string \<Rightarrow> int \<Rightarrow> nat \<Rightarrow> store" where
  "write_grant s lock_key resource_type resource_id next_agent_id next_lock_id ttl time_sec =
     (let next_meta_key = ''lock_meta:'' @ next_lock_id;
          s1 = redis_hset s next_meta_key
                 [(''lock_key'', lock_key), (''agent_id'', next_agent_id),
                  (''lock_id'', next_lock_id), (''acquired_at'', dec_str time_sec),
                  (''resource_type'', resource_type), (''resource_id'', resource_id)];
          s2 = fst (redis_expire s1 next_meta_key ttl);
          s3 = redis_set_ex s2
                 (''agent_lock:'' @ resource_type @ '':'' @ resource_id @ '':'' @ next_agent_id)
                 next_lock_id ttl
      in redis_publish s3 (''lock_granted:'' @ lock_key) (next_agent_id @ '':'' @ next_lock_id))"

text \<open>
  Lines 298 to 344, after the loop. With a next agent, the old owner's metadata and
  mapping are deleted and the lock key is written with \<^verbatim>\<open>SET ... XX EX ttl\<close>, which
  writes only a key that exists and raises for a time that it refuses; \<open>default_ttl\<close> is
  the integer whose text is \<^verbatim>\<open>ARGV[2]\<close>. When the key read back is not the next agent,
  line 313 reads \<^verbatim>\<open>next_in_queue[2]\<close>; that name is local to the body of the loop, so
  here it is a global that does not exist, and the script raises before \<^verbatim>\<open>ZADD\<close> is
  called. The script has found the lock key held before its loop and runs as one step,
  so the key is still there at the write unless one of the keys deleted in between is
  the lock key itself, which no metadata written by the scripts allows
  (\<open>release_lock_no_undefined_global\<close> below).
\<close>

definition release_grant ::
  "store \<Rightarrow> string \<Rightarrow> string \<Rightarrow> string \<Rightarrow> string \<Rightarrow> string \<Rightarrow> string
     \<Rightarrow> (string \<times> string) option \<Rightarrow> int \<Rightarrow> nat \<Rightarrow> (error + release_reply) \<times> store" where
  "release_grant s lock_meta_key lock_key queue_key owner_agent_lock_key resource_type
       resource_id next default_ttl time_sec =
     (case next of
        Some (next_agent_id, next_lock_id) \<Rightarrow>
          (let ttl = lua_tonumber default_ttl;
               s1 = redis_del s lock_meta_key;
               s2 = redis_del s1 owner_agent_lock_key
           in if set_ex_refused ttl then (Inl (ResponseError InvalidExpireTime), s2)
              else
                (let s3 = (if redis_get s2 lock_key = None then s2
                           else redis_set_ex s2 lock_key next_agent_id ttl)
                 in if redis_get s3 lock_key \<noteq> Some next_agent_id then
                      (Inl (ResponseError UndefinedGlobal), s3)
                    else
                      (Inr (1, next_agent_id, next_lock_id, []),
                       write_grant s3 lock_key resource_type resource_id next_agent_id
                         next_lock_id ttl time_sec)))
      | None \<Rightarrow>
          (let s1 = redis_del s lock_key;
               s2 = redis_del s1 lock_meta_key;
               s3 = redis_del s2 owner_agent_lock_key
           in (Inr (0, [], [], []), s3)))"

text \<open>
  The whole script. The fields of the metadata hash are read by name; a field that is
  missing leaves its variable nil, and Lua raises when nil is concatenated.
\<close>

definition release_script ::
  "store \<Rightarrow> string \<Rightarrow> string \<Rightarrow> int \<Rightarrow> bool \<Rightarrow> nat \<Rightarrow> (error + release_reply) \<times> store" where
  "release_script s lock_meta_key agent_id default_ttl idempotent time_sec =
     (let meta = redis_hgetall s lock_meta_key in
      if meta = [] then
        (if idempotent then (Inr (0, [], [], []), s)
         else (Inr (- 1, ''Lock not found or already expired'', [], []), s))
      else
        (case map_of meta ''lock_key'' of
           None \<Rightarrow> (Inr (- 2, ''Invalid lock metadata'', [], []), s)
         | Some lock_key \<Rightarrow>
             (let owner_agent_id = map_of meta ''agent_id'';
                  resource_type = map_of meta ''resource_type'';
                  resource_id = map_of meta ''resource_id''
              in if agent_id \<noteq> [] \<and> Some agent_id \<noteq> owner_agent_id then
                   (Inr (- 3, ''Permission denied: not lock owner'', [], []), s)
                 else
                   (case redis_get s lock_key of
                      None \<Rightarrow>
                        (let s1 = redis_del s lock_meta_key in
                         case (resource_type, resource_id, owner_agent_id) of
                           (Some rt, Some rid, Some owner) \<Rightarrow>
                             (let s2 = redis_del s1 (''agent_lock:'' @ rt @ '':'' @ rid @ '':'' @ owner)
                              in if idempotent then (Inr (0, [], [], []), s2)
                                 else (Inr (- 4, ''Lock expired before release'', [], []), s2))
                         | _ \<Rightarrow> (Inl (ResponseError NilConcatenation), s1))
                    | Some current_owner \<Rightarrow>
                        if Some current_owner \<noteq> owner_agent_id then
                          (Inr (- 5, ''Lock ownership changed during release'', [], []), s)
                        else
                          (case (resource_type, resource_id) of
                             (Some rt, Some rid) \<Rightarrow>
                               (let queue_key = gsub_lock_queue lock_key;
                                    owner_agent_lock_key =
                                      ''agent_lock:'' @ rt @ '':'' @ rid @ '':'' @ current_owner;
                                    (s1, next) = release_loop 10 s queue_key rt rid
                                in release_grant s1 lock_meta_key lock_key queue_key
                                     owner_agent_lock_key rt rid next default_ttl time_sec)
                           | _ \<Rightarrow> (Inl (ResponseError NilConcatenation), s))))))"

text \<open>
  The result dictionaries of \<^verbatim>\<open>release_lock\<close>: \<^verbatim>\<open>error\<close> with its message, and
  \<^verbatim>\<open>released\<close> with \<^verbatim>\<open>next_agent\<close> and \<^verbatim>\<open>next_lock_id\<close> (\<open>None\<close> when nothing was
  handed off).
\<close>

datatype release_result =
    RelError string
  | Released "string option" "string option"

fun release_status :: "release_result \<Rightarrow> string" where
  "release_status (RelError _) = ''error''"
| "release_status (Released _ _) = ''released''"

text \<open>\<^verbatim>\<open>LockManager.release_lock\<close>; \<^verbatim>\<open>agent_id or ""\<close> sends the empty string for \<^verbatim>\<open>None\<close>.\<close>

definition release_lock ::
  "int \<Rightarrow> store \<Rightarrow> nat \<Rightarrow> string \<Rightarrow> string option \<Rightarrow> bool \<Rightarrow> (error + release_result) \<times> store" where
  "release_lock default_ttl s time_sec lock_id agent_id idempotent =
     (case release_script s (''lock_meta:'' @ lock_id)
              (case agent_id of None \<Rightarrow> [] | Some a \<Rightarrow> a) default_ttl idempotent time_sec of
        (Inl e, s') \<Rightarrow> (Inl e, s')
      | (Inr (status_code, r1, r2, _), s') \<Rightarrow>
          (Inr (if status_code < 0 then RelError r1
                else if status_code = 1 then Released (Some r1) (Some r2)
                else Released None None), s'))"

section \<open>Extend\<close>

text \<open>
  The extend script; \<open>additional_ttl\<close> is the integer whose text is \<^verbatim>\<open>ARGV[2]\<close>. Without a
  \<^verbatim>\<open>lock_key\<close> field, \<^verbatim>\<open>GET\<close> is called on nil and raises.
\<close>

definition extend_script ::
  "store \<Rightarrow> string \<Rightarrow> string \<Rightarrow> int \<Rightarrow> string \<Rightarrow> string \<Rightarrow> (error + int \<times> (string + int)) \<times> store" where
  "extend_script s lock_meta_key agent_id additional_ttl resource_type resource_id =
     (let meta = redis_hgetall s lock_meta_key in
      if meta = [] then (Inr (- 1, Inl ''Lock metadata not found''), s)
      else
        (let lock_key = map_of meta ''lock_key'';
             owner = map_of meta ''agent_id''
         in if agent_id \<noteq> [] \<and> Some agent_id \<noteq> owner then (Inr (- 2, Inl ''Not lock owner''), s)
            else
              (case lock_key of
                 None \<Rightarrow>
                   (Inl (ResponseError NilArgument), s)
               | Some k \<Rightarrow>
                   (case redis_get s k of
                      None \<Rightarrow> (Inr (- 3, Inl ''Lock expired''), s)
                    | Some current_owner \<Rightarrow>
                        if Some current_owner \<noteq> owner then
                          (Inr (- 4, Inl ''Lock ownership changed''), s)
                        else
                          (let ttl_added = lua_tonumber additional_ttl in
                           if expire_refused ttl_added then
                             (Inl (ResponseError InvalidExpireTime), s)
                           else
                             (let (s1, expire_result_1) = redis_expire s k ttl_added;
                                  (s2, expire_result_2) = redis_expire s1 lock_meta_key ttl_added;
                                  s3 = fst (redis_expire s2
                                              (''agent_lock:'' @ resource_type @ '':'' @ resource_id
                                                 @ '':'' @ current_owner) ttl_added)
                              in if expire_result_1 = 0 \<or> expire_result_2 = 0 then
                                   (Inr (- 5, Inl ''Lock expired during extend''), s3)
                                 else (Inr (1, Inr ttl_added), s3)))))))"

datatype extend_result =
    ExtError string
  | Extended int

text \<open>
  \<^verbatim>\<open>LockManager.extend_lock\<close> reads the metadata first (store \<open>s0\<close>) and runs the script
  afterwards (store \<open>s\<close>).
\<close>

definition extend_lock ::
  "store \<Rightarrow> store \<Rightarrow> string \<Rightarrow> int \<Rightarrow> string option \<Rightarrow> (error + extend_result) \<times> store" where
  "extend_lock s0 s lock_id additional_ttl agent_id =
     (let meta = redis_hgetall s0 (''lock_meta:'' @ lock_id) in
      if meta = [] then (Inr (ExtError ''Lock not found''), s)
      else
        (let resource_type = (case map_of meta ''resource_type'' of None \<Rightarrow> [] | Some v \<Rightarrow> v);
             resource_id = (case map_of meta ''resource_id'' of None \<Rightarrow> [] | Some v \<Rightarrow> v)
         in case extend_script s (''lock_meta:'' @ lock_id)
                   (case agent_id of None \<Rightarrow> [] | Some a \<Rightarrow> a) additional_ttl
                   resource_type resource_id of
              (Inl e, s') \<Rightarrow> (Inl e, s')
            | (Inr (status_code, Inl message), s') \<Rightarrow> (Inr (ExtError message), s')
            | (Inr (status_code, Inr new_ttl), s') \<Rightarrow> (Inr (Extended new_ttl), s')))"

definition empty_store :: store where
  "empty_store =
     \<lparr>strs = (\<lambda>_. None), hashes = (\<lambda>_. None), zsets = (\<lambda>_. []), lock_id_counter = 0,
      published = []\<rparr>"

section \<open>Example stores\<close>

text \<open>
  The store after \<^verbatim>\<open>agent_a\<close> has acquired \<^verbatim>\<open>(customer, 123)\<close> with lock id \<^verbatim>\<open>L1\<close>, and the
  same store after \<^verbatim>\<open>agent_b\<close> has queued behind it with priority 3 and lock id
  \<^verbatim>\<open>L2\<close>.
\<close>

definition now0 :: datetime where
  "now0 = \<lparr>year = 2026, month = 11, day = 4, hour = 9, minute = 5, second = 7, microsecond = 0\<rparr>"

definition held_store :: store where
  "held_store =
     \<lparr>strs = (\<lambda>_. None)
        (''lock:customer:123'' \<mapsto> (''agent_a'', Some 300),
         ''agent_lock:customer:123:agent_a'' \<mapsto> (''L1'', Some 300)),
      hashes = (\<lambda>_. None)
        (''lock_meta:L1'' \<mapsto>
           ([(''lock_key'', ''lock:customer:123''), (''agent_id'', ''agent_a''),
             (''lock_id'', ''L1''), (''acquired_at'', ''2026-11-04T09:05:07''),
             (''resource_type'', ''customer''), (''resource_id'', ''123'')], Some 300)),
      zsets = (\<lambda>_. []), lock_id_counter = 0, published = []\<rparr>"

definition queued_store :: store where
  "queued_store =
     held_store
       \<lparr>strs := (strs held_store)(''agent_lock:customer:123:agent_b'' \<mapsto> (''L2'', Some 3600)),
        zsets := (zsets held_store)(''queue:customer:123'' := [(''agent_b'', - 3)])\<rparr>"

text \<open>
  The store after the holder of \<^verbatim>\<open>queued_store\<close> has released \<^verbatim>\<open>L1\<close>: the lock is handed
  to \<^verbatim>\<open>agent_b\<close>.
\<close>

definition handed_store :: store where
  "handed_store = snd (release_lock 300 queued_store 1730700000 ''L1'' None True)"

text \<open>The store after the holder of \<^verbatim>\<open>held_store\<close> has asked to cancel its own request.\<close>

definition flagged_store :: store where
  "flagged_store = snd (cancel_lock_request held_store ''customer'' ''123'' ''agent_a'')"

section \<open>Lock ids\<close>




text \<open>
  Two resources whose type ends in \<^verbatim>\<open>lock\<close> or is \<^verbatim>\<open>queue\<close>: \<^verbatim>\<open>agent_a\<close> holds
  \<^verbatim>\<open>(lock, 1)\<close> with lock id \<^verbatim>\<open>L1\<close> and \<^verbatim>\<open>agent_b\<close> waits for it with priority 9;
  \<^verbatim>\<open>agent_d\<close> holds \<^verbatim>\<open>(queue, 1)\<close> with lock id \<^verbatim>\<open>L3\<close> and \<^verbatim>\<open>agent_c\<close> waits for that one
  with priority 1. It is the store after these four calls of \<^verbatim>\<open>acquire_lock\<close>.
\<close>

definition crossed_store :: store where
  "crossed_store =
     \<lparr>strs = (\<lambda>_. None)
        (''lock:lock:1'' \<mapsto> (''agent_a'', Some 300),
         ''agent_lock:lock:1:agent_a'' \<mapsto> (''L1'', Some 300),
         ''lock:queue:1'' \<mapsto> (''agent_d'', Some 300),
         ''agent_lock:queue:1:agent_d'' \<mapsto> (''L3'', Some 300),
         ''agent_lock:lock:1:agent_b'' \<mapsto> (''L2'', Some 3600),
         ''agent_lock:queue:1:agent_c'' \<mapsto> (''L4'', Some 3600)),
      hashes = (\<lambda>_. None)
        (''lock_meta:L1'' \<mapsto>
           ([(''lock_key'', ''lock:lock:1''), (''agent_id'', ''agent_a''),
             (''lock_id'', ''L1''), (''acquired_at'', ''2026-11-04T09:05:07''),
             (''resource_type'', ''lock''), (''resource_id'', ''1'')], Some 300),
         ''lock_meta:L3'' \<mapsto>
           ([(''lock_key'', ''lock:queue:1''), (''agent_id'', ''agent_d''),
             (''lock_id'', ''L3''), (''acquired_at'', ''2026-11-04T09:05:07''),
             (''resource_type'', ''queue''), (''resource_id'', ''1'')], Some 300)),
      zsets = (\<lambda>_. [])
        (''queue:lock:1'' := [(''agent_b'', - 9)], ''queue:queue:1'' := [(''agent_c'', - 1)]),
      lock_id_counter = 0, published = []\<rparr>"

section \<open>Invariants and interleavings\<close>

text \<open>
  Invariant 4 of the data model: a cancel flag never names the holder of its lock.
\<close>

definition cancel_flag_inv :: "store \<Rightarrow> bool" where
  "cancel_flag_inv s =
     (\<forall>T R A. redis_get s (cancel_key_of T R A) \<noteq> None \<longrightarrow>
        redis_get s (lock_key_of T R) \<noteq> Some A)"

text \<open>
  The metadata of a lock id is well formed when its lock key is the key of its resource
  type and id, as in every hash the scripts write.
\<close>

definition meta_well_formed :: "store \<Rightarrow> string \<Rightarrow> bool" where
  "meta_well_formed s L =
     (let meta = redis_hgetall s (''lock_meta:'' @ L) in
      case (map_of meta ''lock_key'', map_of meta ''resource_type'', map_of meta ''resource_id'') of
        (Some lk, Some rt, Some rid) \<Rightarrow> lk = lock_key_of rt rid
      | _ \<Rightarrow> True)"

text \<open>
  The operations that reach the store, each of them one atomic step there: the four
  scripts, and the expiry of a key whose time-to-live has run out. \<^verbatim>\<open>Extend\<close> carries the
  store in which \<^verbatim>\<open>extend_lock\<close> read the metadata before it ran its script. An
  interleaving of concurrent calls is a list of operations.
\<close>

datatype operation =
    Acquire string datetime string string string int "int option" bool
  | Release nat string "string option" bool
  | Extend store string int "string option"
  | Cancel string string string
  | Expire string

definition redis_expired :: "store \<Rightarrow> string \<Rightarrow> store" where
  "redis_expired s k =
     (if (case strs s k of Some (_, Some _) \<Rightarrow> True | _ \<Rightarrow> False) \<or>
         (case hashes s k of Some (_, Some _) \<Rightarrow> True | _ \<Rightarrow> False)
      then redis_del s k else s)"

fun run_operation :: "int \<Rightarrow> store \<Rightarrow> operation \<Rightarrow> store" where
  "run_operation dt s (Acquire L now T R A p t re) = snd (acquire_lock dt s L now T R A p t re)"
| "run_operation dt s (Release t L a idem) = snd (release_lock dt s t L a idem)"
| "run_operation dt s (Extend s0 L t a) = snd (extend_lock s0 s L t a)"
| "run_operation dt s (Cancel T R A) = snd (cancel_lock_request s T R A)"
| "run_operation dt s (Expire k) = redis_expired s k"

text \<open>The operation is an acquire of the lock key \<open>k\<close> that returns \<^verbatim>\<open>acquired\<close>.\<close>

fun acquired_on :: "int \<Rightarrow> store \<Rightarrow> operation \<Rightarrow> string \<Rightarrow> bool" where
  "acquired_on dt s (Acquire L now T R A p t re) k =
     (lock_key_of T R = k \<and>
      (case fst (acquire_lock dt s L now T R A p t re) of
         Inr (Acquired _ _) \<Rightarrow> True | _ \<Rightarrow> False))"
| "acquired_on dt s _ k = False"

text \<open>
  The number of \<^verbatim>\<open>acquired\<close> results on the lock key \<open>k\<close> along a list of operations,
  less the number of steps at which \<open>k\<close> went from held to free (a release without
  successor, or an expiry), starting from \<open>c\<close>. A handoff keeps the key and leaves the
  count as it is, so the count is at least the number of \<^verbatim>\<open>acquired\<close> grants that are
  neither released nor expired.
\<close>

fun outstanding :: "int \<Rightarrow> string \<Rightarrow> store \<Rightarrow> int \<Rightarrow> operation list \<Rightarrow> int" where
  "outstanding dt k s c [] = c"
| "outstanding dt k s c (op # ops) =
     (let s' = run_operation dt s op;
          c1 = (if acquired_on dt s op k then c + 1 else c);
          c2 = (if redis_get s k \<noteq> None \<and> redis_get s' k = None then c1 - 1 else c1)
      in outstanding dt k s' c2 ops)"

section \<open>The HTTP endpoints\<close>

text \<open>
  The request models of \<^verbatim>\<open>src/protomesh/api/main.py\<close>, after validation, and the handlers
  of the lock endpoints. The module builds its \<^verbatim>\<open>LockManager\<close> without a \<^verbatim>\<open>default_ttl\<close>,
  which is then 300. Each handler passes the fields of its request to the engine and
  turns an exception into \<^verbatim>\<open>HTTPException(status_code=500, detail=str(e))\<close>, the detail
  kept here as the cause of the exception.
\<close>

record AcquireLockRequest =
  resource_type :: string
  resource_id :: string
  agent_id :: string
  priority :: int
  ttl :: "int option"

record ReleaseLockRequest =
  lock_id :: string
  agent_id :: "string option"

record CancelLockRequest =
  resource_type :: string
  resource_id :: string
  agent_id :: string

datatype http_error = HTTPException int failure

definition http_response :: "(error + 'a) \<times> store \<Rightarrow> (http_error + 'a) \<times> store" where
  "http_response r =
     (case r of
        (Inl (ResponseError cause), s') \<Rightarrow> (Inl (HTTPException 500 cause), s')
      | (Inr result, s') \<Rightarrow> (Inr result, s'))"

definition acquire_lock_endpoint ::
  "store \<Rightarrow> string \<Rightarrow> datetime \<Rightarrow> AcquireLockRequest \<Rightarrow> (http_error + acquire_result) \<times> store" where
  "acquire_lock_endpoint s new_lock_id now request =
     http_response
       (acquire_lock 300 s new_lock_id now (AcquireLockRequest.resource_type request)
          (AcquireLockRequest.resource_id request) (AcquireLockRequest.agent_id request)
          (priority request) (ttl request) False)"

definition release_lock_endpoint ::
  "store \<Rightarrow> nat \<Rightarrow> ReleaseLockRequest \<Rightarrow> (http_error + release_result) \<times> store" where
  "release_lock_endpoint s time_sec request =
     http_response
       (release_lock 300 s time_sec (lock_id request) (ReleaseLockRequest.agent_id request) True)"

definition cancel_lock_endpoint :: "store \<Rightarrow> CancelLockRequest \<Rightarrow> cancel_result \<times> store" where
  "cancel_lock_endpoint s request =
     cancel_lock_request s (CancelLockRequest.resource_type request)
       (CancelLockRequest.resource_id request) (CancelLockRequest.agent_id request)"

section \<open>Properties of the store commands\<close>

lemma get_del [simp]: "redis_get (redis_del s k) k' = (if k' = k then None else redis_get s k')"
  by (simp add: redis_get_def redis_del_def)

lemma get_set_ex [simp]:
  "redis_get (redis_set_ex s k v t) k' = (if k' = k then Some v else redis_get s k')"
  by (simp add: redis_get_def redis_set_ex_def)

lemma get_expire [simp]:
  "redis_get (fst (redis_expire s k t)) k' = (if k' = k \<and> t \<le> 0 then None else redis_get s k')"
  by (auto simp: redis_get_def redis_expire_def redis_exists_def redis_del_def split: option.splits)

lemma get_hset [simp]: "redis_get (redis_hset s k fvs) k' = redis_get s k'"
  by (simp add: redis_get_def redis_hset_def split: prod.splits)

lemma get_publish [simp]: "redis_get (redis_publish s c p) k = redis_get s k"
  by (simp add: redis_get_def redis_publish_def)

lemma get_zsets_update [simp]: "redis_get (s\<lparr>zsets := z\<rparr>) k = redis_get s k"
  by (simp add: redis_get_def)

lemma get_counter_update [simp]: "redis_get (s\<lparr>lock_id_counter := c\<rparr>) k = redis_get s k"
  by (simp add: redis_get_def)

lemma get_zrem [simp]: "redis_get (fst (redis_zrem s k m)) k' = redis_get s k'"
  by (simp add: redis_zrem_def)

lemma zsets_del [simp]: "zsets (redis_del s k) = (zsets s)(k := [])"
  by (simp add: redis_del_def)

lemma zsets_set_ex [simp]: "zsets (redis_set_ex s k v t) = zsets s"
  by (simp add: redis_set_ex_def)

lemma zsets_expire [simp]:
  "zsets (fst (redis_expire s k t)) =
     (if redis_exists s k \<and> t \<le> 0 then (zsets s)(k := []) else zsets s)"
  by (simp add: redis_expire_def)

lemma zsets_hset [simp]: "zsets (redis_hset s k fvs) = zsets s"
  by (simp add: redis_hset_def split: prod.splits)

lemma zsets_publish [simp]: "zsets (redis_publish s c p) = zsets s"
  by (simp add: redis_publish_def)

lemma hgetall_del [simp]:
  "redis_hgetall (redis_del s k) k' = (if k' = k then [] else redis_hgetall s k')"
  by (simp add: redis_hgetall_def redis_del_def)

lemma hgetall_set_ex [simp]: "redis_hgetall (redis_set_ex s k v t) k' = redis_hgetall s k'"
  by (simp add: redis_hgetall_def redis_set_ex_def)

lemma hgetall_hset [simp]:
  "redis_hgetall (redis_hset s k fvs) k' =
     (if k' = k then fvs @ [p \<leftarrow> redis_hgetall s k. fst p \<notin> set (map fst fvs)]
      else redis_hgetall s k')"
  by (simp add: redis_hgetall_def redis_hset_def split: prod.splits option.splits)

lemma hgetall_expire [simp]:
  "redis_hgetall (fst (redis_expire s k t)) k' =
     (if k' = k \<and> t \<le> 0 then [] else redis_hgetall s k')"
  by (auto simp: redis_hgetall_def redis_expire_def redis_exists_def redis_del_def
      split: option.splits)

lemma hgetall_publish [simp]: "redis_hgetall (redis_publish s c p) k = redis_hgetall s k"
  by (simp add: redis_hgetall_def redis_publish_def)

lemma hgetall_zsets_update [simp]: "redis_hgetall (s\<lparr>zsets := z\<rparr>) k = redis_hgetall s k"
  by (simp add: redis_hgetall_def)

lemma hgetall_counter_update [simp]:
  "redis_hgetall (s\<lparr>lock_id_counter := c\<rparr>) k = redis_hgetall s k"
  by (simp add: redis_hgetall_def)

lemma zrem_absent: "zscore q m = None \<Longrightarrow> zrem q m = q"
  by (induction q) (auto simp: zscore_def zrem_def split: if_splits)

lemma zscore_zrem [simp]: "zscore (zrem q m) m' = (if m' = m then None else zscore q m')"
  by (induction q) (auto simp: zscore_def zrem_def)

section \<open>Numbers in Lua\<close>

lemma double_exponent_exact: "n < 2 ^ 53 \<Longrightarrow> double_exponent n = 0"
  by (simp add: double_exponent.simps)

lemma round_double_exact: "n < 2 ^ 53 \<Longrightarrow> round_double n = n"
  by (simp add: round_double_def double_exponent_exact)

lemma lua_tonumber_exact: "\<bar>i\<bar> < 2 ^ 53 \<Longrightarrow> lua_tonumber i = i"
  by (simp add: lua_tonumber_def round_double_exact nat_less_iff)

lemma lua_tonumber_numeral [simp]:
  "numeral n < (2 ^ 53 :: int) \<Longrightarrow> lua_tonumber (numeral n) = numeral n"
  "numeral n < (2 ^ 53 :: int) \<Longrightarrow> lua_tonumber (- numeral n) = - numeral n"
  "lua_tonumber 0 = 0"
  by (simp_all add: lua_tonumber_exact)

text \<open>The first integer that is not a double is read as its even neighbour.\<close>

lemma lua_tonumber_rounds: "lua_tonumber (2 ^ 53 + 1) = 2 ^ 53"
  by (simp add: lua_tonumber_def round_double_def double_exponent.simps Let_def)

lemma accepted_below_2_53:
  "0 < t \<Longrightarrow> t < 2 ^ 53 \<Longrightarrow> \<not> set_ex_refused (lua_tonumber t) \<and> \<not> expire_refused (lua_tonumber t)"
  by (simp add: lua_tonumber_exact set_ex_refused_def expire_refused_def max_expire_def)

section \<open>Cancel\<close>

text \<open>
  Claim C4, as the spec has it, gives the detail \<^verbatim>\<open>flag_set\<close> to a cancel that finds the
  agent outside the queue. The script replies \<^verbatim>\<open>not_in_queue_flag_set\<close>: on the empty
  store, where \<^verbatim>\<open>agent_a\<close> is in no queue, the detail is that string and not \<^verbatim>\<open>flag_set\<close>.
\<close>

theorem cancel_detail_counterexample:
  "zscore (zsets empty_store (queue_key_of ''customer'' ''123'')) ''agent_a'' = None \<and>
   cancel_detail (fst (cancel_lock_request empty_store ''customer'' ''123'' ''agent_a''))
     = ''not_in_queue_flag_set'' \<and>
   cancel_detail (fst (cancel_lock_request empty_store ''customer'' ''123'' ''agent_a''))
     \<noteq> ''flag_set''"
  by (simp add: cancel_lock_request_def cancel_script_def redis_zrem_def zscore_def
      empty_store_def queue_key_of_def)

text \<open>
  Claim C4, amended: \<^verbatim>\<open>cancel_lock_request(T, R, A)\<close> always reports the status
  \<^verbatim>\<open>cancelled\<close>. If A is in \<^verbatim>\<open>queue:T:R\<close>, it is removed, \<^verbatim>\<open>agent_lock:T:R:A\<close> is deleted
  and the detail is \<^verbatim>\<open>removed_from_queue\<close>. Otherwise \<^verbatim>\<open>cancel:T:R:A\<close> is written as
  \<^verbatim>\<open>"1"\<close> with a time-to-live of 60 seconds, the queues are unchanged and the detail is
  \<^verbatim>\<open>not_in_queue_flag_set\<close>. A second call on the resulting store reports \<^verbatim>\<open>cancelled\<close>
  again, with the detail \<^verbatim>\<open>not_in_queue_flag_set\<close>.
\<close>

theorem cancel_lock_request_behaviour:
  assumes "cancel_lock_request s T R A = (res, s')"
  shows "cancel_status res = ''cancelled'' \<and>
         (zscore (zsets s (queue_key_of T R)) A \<noteq> None \<longrightarrow>
            cancel_detail res = ''removed_from_queue'' \<and>
            zscore (zsets s' (queue_key_of T R)) A = None \<and>
            redis_get s' (agent_lock_key_of T R A) = None) \<and>
         (zscore (zsets s (queue_key_of T R)) A = None \<longrightarrow>
            cancel_detail res = ''not_in_queue_flag_set'' \<and>
            strs s' (cancel_key_of T R A) = Some (''1'', Some 60) \<and>
            zsets s' = zsets s) \<and>
         cancel_status (fst (cancel_lock_request s' T R A)) = ''cancelled'' \<and>
         cancel_detail (fst (cancel_lock_request s' T R A)) = ''not_in_queue_flag_set''"
proof -
  have status: "cancel_status res = ''cancelled''"
    using assms by (auto simp: cancel_lock_request_def split: prod.splits)
  have queued: "cancel_detail res = ''removed_from_queue'' \<and>
        zscore (zsets s' (queue_key_of T R)) A = None \<and>
        redis_get s' (agent_lock_key_of T R A) = None"
    if "zscore (zsets s (queue_key_of T R)) A \<noteq> None"
    using assms that
    by (auto simp: cancel_lock_request_def cancel_script_def redis_zrem_def queue_key_of_def
        agent_lock_key_of_def split: prod.splits)
  have flagged: "cancel_detail res = ''not_in_queue_flag_set'' \<and>
        strs s' (cancel_key_of T R A) = Some (''1'', Some 60) \<and> zsets s' = zsets s"
    if "zscore (zsets s (queue_key_of T R)) A = None"
    using assms that
    by (auto simp: cancel_lock_request_def cancel_script_def redis_zrem_def zrem_absent
        redis_set_ex_def split: prod.splits)
  have "zscore (zsets s' (queue_key_of T R)) A = None"
    using assms
    by (auto simp: cancel_lock_request_def cancel_script_def redis_zrem_def zrem_absent
        queue_key_of_def agent_lock_key_of_def split: prod.splits if_splits)
  then have again: "cancel_status (fst (cancel_lock_request s' T R A)) = ''cancelled'' \<and>
         cancel_detail (fst (cancel_lock_request s' T R A)) = ''not_in_queue_flag_set''"
    by (auto simp: cancel_lock_request_def cancel_script_def redis_zrem_def split: prod.splits)
  from status queued flagged again show ?thesis by blast
qed

theorem cancel_lock_request_behaviour_witness:
  "cancel_detail (fst (cancel_lock_request queued_store ''customer'' ''123'' ''agent_b''))
     = ''removed_from_queue'' \<and>
   redis_get (snd (cancel_lock_request queued_store ''customer'' ''123'' ''agent_b''))
     (agent_lock_key_of ''customer'' ''123'' ''agent_b'') = None \<and>
   cancel_detail (fst (cancel_lock_request queued_store ''customer'' ''123'' ''agent_a''))
     = ''not_in_queue_flag_set'' \<and>
   strs (snd (cancel_lock_request queued_store ''customer'' ''123'' ''agent_a''))
     (cancel_key_of ''customer'' ''123'' ''agent_a'') = Some (''1'', Some 60)"
proof -
  have b: "zscore (zsets queued_store (queue_key_of ''customer'' ''123'')) ''agent_b'' \<noteq> None"
    by (simp add: queued_store_def held_store_def zscore_def queue_key_of_def)
  have a: "zscore (zsets queued_store (queue_key_of ''customer'' ''123'')) ''agent_a'' = None"
    by (simp add: queued_store_def held_store_def zscore_def queue_key_of_def)
  show ?thesis
    using b a
      cancel_lock_request_behaviour [where s = queued_store and T = "''customer''"
        and R = "''123''" and A = "''agent_b''", OF surjective_pairing]
      cancel_lock_request_behaviour [where s = queued_store and T = "''customer''"
        and R = "''123''" and A = "''agent_a''", OF surjective_pairing]
    by blast
qed

section \<open>The release script, step by step\<close>

lemma gsub_customer: "gsub_lock_queue ''lock:customer:123'' = ''queue:customer:123''"
  by code_simp

lemma release_loop_found:
  assumes "zpopmin (zsets s q) = Some ((N, sc), rest)"
    and "redis_get s (''cancel:'' @ rt @ '':'' @ rid @ '':'' @ N) = None"
    and "redis_get s (''agent_lock:'' @ rt @ '':'' @ rid @ '':'' @ N) = Some L'"
  shows "release_loop (Suc n) s q rt rid = (s\<lparr>zsets := (zsets s)(q := rest)\<rparr>, Some (N, L'))"
  using assms by simp

lemma release_loop_fallback:
  assumes "zpopmin (zsets s q) = Some ((N, sc), rest)"
    and "redis_get s (''cancel:'' @ rt @ '':'' @ rid @ '':'' @ N) = None"
    and "redis_get s (''agent_lock:'' @ rt @ '':'' @ rid @ '':'' @ N) = None"
  shows "release_loop (Suc n) s q rt rid =
     (s\<lparr>zsets := (zsets s)(q := rest), lock_id_counter := lock_id_counter s + 1\<rparr>,
      Some (N, ''fallback_'' @ dec_str (nat (lock_id_counter s + 1))))"
  using assms by (simp add: Let_def)

lemma release_loop_empty:
  assumes "zsets s q = []"
  shows "release_loop n s q rt rid = (s, None)"
  using assms by (cases n) (simp_all add: zpopmin_def)

lemma release_script_held:
  assumes "redis_hgetall s mk = meta" "meta \<noteq> []"
    and "map_of meta ''lock_key'' = Some lk"
    and "map_of meta ''agent_id'' = Some owner"
    and "map_of meta ''resource_type'' = Some rt"
    and "map_of meta ''resource_id'' = Some rid"
    and "agent = [] \<or> agent = owner"
    and "redis_get s lk = Some owner"
  shows "release_script s mk agent dt idem t =
     (case release_loop 10 s (gsub_lock_queue lk) rt rid of
        (s1, nxt) \<Rightarrow>
          release_grant s1 mk lk (gsub_lock_queue lk)
            (''agent_lock:'' @ rt @ '':'' @ rid @ '':'' @ owner) rt rid nxt dt t)"
  using assms by (auto simp: release_script_def Let_def)

lemma release_grant_granted:
  assumes "\<not> set_ex_refused (lua_tonumber dt)" and "redis_get s lk \<noteq> None" and "mk \<noteq> lk"
    and "oalk \<noteq> lk"
  shows "fst (release_grant s mk lk qk oalk rt rid (Some (N, L')) dt t) = Inr (1, N, L', [])"
  using assms by (simp add: release_grant_def Let_def)

lemma accepted_300: "\<not> set_ex_refused 300" "\<not> expire_refused 300"
  by (simp_all add: set_ex_refused_def expire_refused_def max_expire_def)

subsection \<open>The example stores\<close>

lemma queued_store_pop:
  "zpopmin (zsets queued_store ''queue:customer:123'') = Some ((''agent_b'', - 3), [])"
  by (simp add: queued_store_def held_store_def zpopmin_def zrem_def)

lemma queued_store_no_cancel:
  "redis_get queued_store (''cancel:'' @ ''customer'' @ '':'' @ ''123'' @ '':'' @ ''agent_b'') = None"
  by (simp add: queued_store_def held_store_def redis_get_def)

lemma queued_store_mapping:
  "redis_get queued_store (''agent_lock:'' @ ''customer'' @ '':'' @ ''123'' @ '':'' @ ''agent_b'')
     = Some ''L2''"
  by (simp add: queued_store_def held_store_def redis_get_def)

lemma queued_store_loop:
  "release_loop 10 queued_store ''queue:customer:123'' ''customer'' ''123'' =
     (queued_store\<lparr>zsets := (zsets queued_store)(''queue:customer:123'' := [])\<rparr>,
      Some (''agent_b'', ''L2''))"
  using release_loop_found [OF queued_store_pop queued_store_no_cancel queued_store_mapping, of 9]
  by simp

lemma queued_store_meta:
  "redis_hgetall queued_store ''lock_meta:L1'' =
     [(''lock_key'', ''lock:customer:123''), (''agent_id'', ''agent_a''),
      (''lock_id'', ''L1''), (''acquired_at'', ''2026-11-04T09:05:07''),
      (''resource_type'', ''customer''), (''resource_id'', ''123'')]"
  by (simp add: queued_store_def held_store_def redis_hgetall_def)

lemma queued_store_holder: "redis_get queued_store ''lock:customer:123'' = Some ''agent_a''"
  by (simp add: queued_store_def held_store_def redis_get_def)

lemma queued_store_script:
  "release_script queued_store ''lock_meta:L1'' [] 300 True 1730700000 =
     release_grant (queued_store\<lparr>zsets := (zsets queued_store)(''queue:customer:123'' := [])\<rparr>)
       ''lock_meta:L1'' ''lock:customer:123'' ''queue:customer:123''
       ''agent_lock:customer:123:agent_a'' ''customer'' ''123'' (Some (''agent_b'', ''L2''))
       300 1730700000"
  using release_script_held [OF queued_store_meta, of "''lock:customer:123''" "''agent_a''"
      "''customer''" "''123''" "[]" 300 True 1730700000]
  by (simp add: queued_store_holder gsub_customer queued_store_loop)

lemma queued_store_release:
  "fst (release_lock 300 queued_store 1730700000 ''L1'' None True) =
     Inr (Released (Some ''agent_b'') (Some ''L2''))"
  using release_grant_granted [of 300
      "queued_store\<lparr>zsets := (zsets queued_store)(''queue:customer:123'' := [])\<rparr>"
      "''lock:customer:123''" "''lock_meta:L1''" "''agent_lock:customer:123:agent_a''"
      "''queue:customer:123''" "''customer''" "''123''" "''agent_b''" "''L2''" 1730700000]
  by (simp add: release_lock_def queued_store_script queued_store_holder accepted_300 split_beta)

lemma handed_store_holder: "redis_get handed_store ''lock:customer:123'' = Some ''agent_b''"
  by (simp add: handed_store_def release_lock_def queued_store_script release_grant_def
      write_grant_def queued_store_holder accepted_300 Let_def split_beta)

section \<open>Status\<close>

text \<open>
  Claim C5 says that the status is \<^verbatim>\<open>expired\<close> when the lock key holds an agent other
  than the one of the metadata. \<^verbatim>\<open>check_lock_status\<close> only tests that the key holds
  something. The metadata of \<^verbatim>\<open>L1\<close> is read in \<^verbatim>\<open>queued_store\<close>, where \<^verbatim>\<open>agent_a\<close> holds
  the lock; the holder then releases, which hands the lock to \<^verbatim>\<open>agent_b\<close>, and the lock
  key is read in \<^verbatim>\<open>handed_store\<close>: the status is \<^verbatim>\<open>active\<close>, for \<^verbatim>\<open>agent_a\<close>.
\<close>

theorem check_lock_status_counterexample:
  "map_of (redis_hgetall queued_store (''lock_meta:'' @ ''L1'')) ''agent_id'' = Some ''agent_a'' \<and>
   map_of (redis_hgetall queued_store (''lock_meta:'' @ ''L1'')) ''lock_key''
     = Some ''lock:customer:123'' \<and>
   fst (release_lock 300 queued_store 1730700000 ''L1'' None True)
     = Inr (Released (Some ''agent_b'') (Some ''L2'')) \<and>
   redis_get handed_store ''lock:customer:123'' = Some ''agent_b'' \<and>
   check_lock_status queued_store handed_store ''L1''
     = Active (Some ''agent_a'') (Some ''2026-11-04T09:05:07'') (Some ''customer'') (Some ''123'')"
  by (simp add: check_lock_status_def queued_store_meta queued_store_release
      handed_store_holder)

text \<open>
  Claim C5, amended: \<^verbatim>\<open>check_lock_status(L)\<close> returns \<^verbatim>\<open>expired\<close> when the metadata hash
  of L is absent, and when it names a lock key that is absent or holds the empty string.
  In every other case it returns \<^verbatim>\<open>active\<close> with the stored \<^verbatim>\<open>agent_id\<close>, \<^verbatim>\<open>acquired_at\<close>,
  \<^verbatim>\<open>resource_type\<close> and \<^verbatim>\<open>resource_id\<close>: also when the lock key holds an agent other than
  the metadata's, and when the metadata has no lock key. \<open>s1\<close> is the store at the
  first read and \<open>s2\<close> the store at the second.
\<close>

theorem check_lock_status_result:
  "(redis_hgetall s1 (''lock_meta:'' @ L) = [] \<longrightarrow> check_lock_status s1 s2 L = Expired) \<and>
   (redis_hgetall s1 (''lock_meta:'' @ L) \<noteq> [] \<and>
    map_of (redis_hgetall s1 (''lock_meta:'' @ L)) ''lock_key'' = Some k \<and> k \<noteq> [] \<and>
    (redis_get s2 k = None \<or> redis_get s2 k = Some []) \<longrightarrow>
      check_lock_status s1 s2 L = Expired) \<and>
   (redis_hgetall s1 (''lock_meta:'' @ L) \<noteq> [] \<and>
    map_of (redis_hgetall s1 (''lock_meta:'' @ L)) ''lock_key'' = Some k \<and>
    redis_get s2 k = Some owner \<and> owner \<noteq> [] \<longrightarrow>
      check_lock_status s1 s2 L =
        Active (map_of (redis_hgetall s1 (''lock_meta:'' @ L)) ''agent_id'')
          (map_of (redis_hgetall s1 (''lock_meta:'' @ L)) ''acquired_at'')
          (map_of (redis_hgetall s1 (''lock_meta:'' @ L)) ''resource_type'')
          (map_of (redis_hgetall s1 (''lock_meta:'' @ L)) ''resource_id'')) \<and>
   (redis_hgetall s1 (''lock_meta:'' @ L) \<noteq> [] \<and>
    (map_of (redis_hgetall s1 (''lock_meta:'' @ L)) ''lock_key'' = None \<or>
     map_of (redis_hgetall s1 (''lock_meta:'' @ L)) ''lock_key'' = Some []) \<longrightarrow>
      check_lock_status s1 s2 L =
        Active (map_of (redis_hgetall s1 (''lock_meta:'' @ L)) ''agent_id'')
          (map_of (redis_hgetall s1 (''lock_meta:'' @ L)) ''acquired_at'')
          (map_of (redis_hgetall s1 (''lock_meta:'' @ L)) ''resource_type'')
          (map_of (redis_hgetall s1 (''lock_meta:'' @ L)) ''resource_id''))"
  by (auto simp: check_lock_status_def Let_def)

theorem check_lock_status_result_witness:
  "check_lock_status empty_store empty_store ''L1'' = Expired \<and>
   check_lock_status queued_store empty_store ''L1'' = Expired \<and>
   check_lock_status queued_store queued_store ''L1'' =
     Active (Some ''agent_a'') (Some ''2026-11-04T09:05:07'') (Some ''customer'') (Some ''123'')"
proof -
  have e: "redis_hgetall empty_store (''lock_meta:'' @ ''L1'') = []"
    by (simp add: empty_store_def redis_hgetall_def)
  have n: "redis_get empty_store ''lock:customer:123'' = None"
    by (simp add: empty_store_def redis_get_def)
  show ?thesis
    using e n queued_store_meta queued_store_holder
      check_lock_status_result [of empty_store "''L1''" empty_store "''lock:customer:123''"
        "''agent_a''"]
      check_lock_status_result [of queued_store "''L1''" empty_store "''lock:customer:123''"
        "''agent_a''"]
      check_lock_status_result [of queued_store "''L1''" queued_store "''lock:customer:123''"
        "''agent_a''"]
    by simp
qed

section \<open>Acquire\<close>

lemma strs_expire [simp]:
  "strs (fst (redis_expire s k t)) k' =
     (if k' = k then (if t \<le> 0 then None else map_option (\<lambda>e. (fst e, Some t)) (strs s k))
      else strs s k')"
  by (auto simp: redis_expire_def redis_exists_def redis_del_def split: option.splits)

lemma hashes_expire [simp]:
  "hashes (fst (redis_expire s k t)) k' =
     (if k' = k then (if t \<le> 0 then None else map_option (\<lambda>e. (fst e, Some t)) (hashes s k))
      else hashes s k')"
  by (auto simp: redis_expire_def redis_exists_def redis_del_def split: option.splits)

lemma strs_set_ex [simp]: "strs (redis_set_ex s k v t) = (strs s)(k \<mapsto> (v, Some t))"
  by (simp add: redis_set_ex_def)

lemma hashes_set_ex [simp]: "hashes (redis_set_ex s k v t) = hashes s"
  by (simp add: redis_set_ex_def)

lemma strs_hset [simp]: "strs (redis_hset s k fvs) = strs s"
  by (simp add: redis_hset_def split: prod.splits)

lemma strs_del [simp]: "strs (redis_del s k) = (strs s)(k := None)"
  by (simp add: redis_del_def)

lemma hashes_del [simp]: "hashes (redis_del s k) = (hashes s)(k := None)"
  by (simp add: redis_del_def)

text \<open>Keys of different kinds differ in their prefix.\<close>

lemma key_prefixes [simp]:
  "lock_key_of T R \<noteq> agent_lock_key_of T' R' A'"
  "lock_key_of T R \<noteq> cancel_key_of T' R' A'"
  "lock_key_of T R \<noteq> lock_meta_key_of L"
  "agent_lock_key_of T R A \<noteq> lock_key_of T' R'"
  "agent_lock_key_of T R A \<noteq> cancel_key_of T' R' A'"
  "agent_lock_key_of T R A \<noteq> lock_meta_key_of L"
  "cancel_key_of T R A \<noteq> lock_key_of T' R'"
  "cancel_key_of T R A \<noteq> agent_lock_key_of T' R' A'"
  "cancel_key_of T R A \<noteq> lock_meta_key_of L"
  "lock_meta_key_of L \<noteq> lock_key_of T R"
  "lock_meta_key_of L \<noteq> agent_lock_key_of T R A"
  "lock_meta_key_of L \<noteq> cancel_key_of T R A"
  by (simp_all add: lock_key_of_def agent_lock_key_of_def cancel_key_of_def lock_meta_key_of_def)

lemma acquire_script_reentrant:
  assumes "redis_get s lk = Some A" "redis_get s ck = None" "redis_get s alk = Some L0"
    and "\<not> expire_refused (lua_tonumber t)"
  shows "acquire_script s lk mk qk alk ck A t L at T R sc True =
     (Inr (2, Some (lua_tonumber t), Some L0),
      fst (redis_expire (fst (redis_expire (fst (redis_expire s lk (lua_tonumber t)))
             (lock_meta_key_of L0) (lua_tonumber t))) alk (lua_tonumber t)))"
  using assms by (simp add: acquire_script_def Let_def lock_meta_key_of_def)

lemma acquire_lock_acquired:
  assumes "fst (acquire_lock dt s L now T R A p ttl0 re) = Inr (Acquired L' e)"
  shows "L' = L \<and> e = Some (lua_tonumber (effective_ttl dt ttl0)) \<and>
         0 < lua_tonumber (effective_ttl dt ttl0) \<and>
         redis_get s (lock_key_of T R) = None \<and> redis_get s (cancel_key_of T R A) = None \<and>
         snd (acquire_lock dt s L now T R A p ttl0 re) =
           redis_set_ex
             (fst (redis_expire
               (redis_hset (redis_set_ex s (lock_key_of T R) A (lua_tonumber (effective_ttl dt ttl0)))
                  (lock_meta_key_of L)
                  [(''lock_key'', lock_key_of T R), (''agent_id'', A), (''lock_id'', L),
                   (''acquired_at'', isoformat now), (''resource_type'', T),
                   (''resource_id'', R)])
               (lock_meta_key_of L) (lua_tonumber (effective_ttl dt ttl0))))
             (agent_lock_key_of T R A) L (lua_tonumber (effective_ttl dt ttl0))"
  using assms
  by (auto simp: acquire_lock_def acquire_script_def acquire_or_queue_def Let_def
      set_ex_refused_def split: option.splits if_splits)

text \<open>
  Claim C3, amended: an \<^verbatim>\<open>acquire(T, R, A, reentrant=true)\<close> executed while A is the value
  of \<^verbatim>\<open>lock:T:R\<close>, while no cancel flag \<^verbatim>\<open>cancel:T:R:A\<close> is set, while \<^verbatim>\<open>agent_lock:T:R:A\<close>
  holds a lock id \<open>L0\<close> and with a time-to-live (the argument, or the default for none
  and for 0) that is positive and below \<open>2^53\<close> seconds, returns \<^verbatim>\<open>already_owned\<close> with
  \<open>L0\<close> and that time-to-live, and sets it on \<^verbatim>\<open>lock:T:R\<close>, on \<^verbatim>\<open>agent_lock:T:R:A\<close> and on
  the metadata hash of \<open>L0\<close> when there is one. In particular, right after an acquire
  that returned \<^verbatim>\<open>acquired\<close> with lock id \<open>L1\<close>, a re-entrant acquire returns
  \<^verbatim>\<open>already_owned\<close> with \<open>L1\<close>. With the cancel flag set, the acquire returns \<^verbatim>\<open>cancelled\<close>
  and deletes the flag, and the lock key stays as it is.
\<close>

theorem acquire_lock_reentrant:
  "(redis_get s (lock_key_of T R) = Some A \<and> redis_get s (cancel_key_of T R A) = None \<and>
    redis_get s (agent_lock_key_of T R A) = Some L0 \<and>
    0 < effective_ttl dt ttl0 \<and> effective_ttl dt ttl0 < 2 ^ 53 \<longrightarrow>
      fst (acquire_lock dt s L now T R A p ttl0 True)
        = Inr (AlreadyOwned L0 (Some (effective_ttl dt ttl0))) \<and>
      strs (snd (acquire_lock dt s L now T R A p ttl0 True)) (lock_key_of T R)
        = Some (A, Some (effective_ttl dt ttl0)) \<and>
      strs (snd (acquire_lock dt s L now T R A p ttl0 True)) (agent_lock_key_of T R A)
        = Some (L0, Some (effective_ttl dt ttl0)) \<and>
      hashes (snd (acquire_lock dt s L now T R A p ttl0 True)) (lock_meta_key_of L0)
        = map_option (\<lambda>e. (fst e, Some (effective_ttl dt ttl0))) (hashes s (lock_meta_key_of L0))) \<and>
   (fst (acquire_lock dt s L1 now1 T R A p1 ttl1 re1) = Inr (Acquired L1' e1) \<and>
    0 < effective_ttl dt ttl0 \<and> effective_ttl dt ttl0 < 2 ^ 53 \<longrightarrow>
      fst (acquire_lock dt (snd (acquire_lock dt s L1 now1 T R A p1 ttl1 re1)) L now T R A p ttl0 True)
        = Inr (AlreadyOwned L1 (Some (effective_ttl dt ttl0)))) \<and>
   (redis_get s (cancel_key_of T R A) \<noteq> None \<longrightarrow>
      fst (acquire_lock dt s L now T R A p ttl0 True)
        = Inr (AcqCancelled ''Lock request was cancelled'') \<and>
      redis_get (snd (acquire_lock dt s L now T R A p ttl0 True)) (cancel_key_of T R A) = None \<and>
      redis_get (snd (acquire_lock dt s L now T R A p ttl0 True)) (lock_key_of T R)
        = redis_get s (lock_key_of T R))"
proof -
  have re: "fst (acquire_lock dt s L now T R A p ttl0 True)
        = Inr (AlreadyOwned L0 (Some (effective_ttl dt ttl0))) \<and>
      strs (snd (acquire_lock dt s L now T R A p ttl0 True)) (lock_key_of T R)
        = Some (A, Some (effective_ttl dt ttl0)) \<and>
      strs (snd (acquire_lock dt s L now T R A p ttl0 True)) (agent_lock_key_of T R A)
        = Some (L0, Some (effective_ttl dt ttl0)) \<and>
      hashes (snd (acquire_lock dt s L now T R A p ttl0 True)) (lock_meta_key_of L0)
        = map_option (\<lambda>e. (fst e, Some (effective_ttl dt ttl0))) (hashes s (lock_meta_key_of L0))"
    if a: "redis_get s (lock_key_of T R) = Some A" "redis_get s (cancel_key_of T R A) = None"
      "redis_get s (agent_lock_key_of T R A) = Some L0"
      and pos: "0 < effective_ttl dt ttl0" and small: "effective_ttl dt ttl0 < 2 ^ 53"
    for s L0
  proof -
    have exact: "lua_tonumber (effective_ttl dt ttl0) = effective_ttl dt ttl0"
      using pos small by (simp add: lua_tonumber_exact)
    have ok: "\<not> expire_refused (lua_tonumber (effective_ttl dt ttl0))"
      using accepted_below_2_53 [OF pos small] by simp
    have "acquire_lock dt s L now T R A p ttl0 True =
        (Inr (AlreadyOwned L0 (Some (effective_ttl dt ttl0))),
         fst (redis_expire (fst (redis_expire (fst (redis_expire s (lock_key_of T R)
           (effective_ttl dt ttl0))) (lock_meta_key_of L0) (effective_ttl dt ttl0)))
           (agent_lock_key_of T R A) (effective_ttl dt ttl0)))"
      using acquire_script_reentrant [OF a ok] by (simp add: acquire_lock_def Let_def exact)
    then show ?thesis
      using a pos by (auto simp: redis_get_def)
  qed
  have twice: "fst (acquire_lock dt (snd (acquire_lock dt s L1 now1 T R A p1 ttl1 re1)) L now T R A p ttl0 True)
        = Inr (AlreadyOwned L1 (Some (effective_ttl dt ttl0)))"
    if f: "fst (acquire_lock dt s L1 now1 T R A p1 ttl1 re1) = Inr (Acquired L1' e1)"
      and pos: "0 < effective_ttl dt ttl0" and small: "effective_ttl dt ttl0 < 2 ^ 53"
  proof -
    let ?s1 = "snd (acquire_lock dt s L1 now1 T R A p1 ttl1 re1)"
    note post = acquire_lock_acquired [OF f]
    have "redis_get ?s1 (lock_key_of T R) = Some A"
      "redis_get ?s1 (cancel_key_of T R A) = None"
      "redis_get ?s1 (agent_lock_key_of T R A) = Some L1"
      using post by simp_all
    from re [OF this pos small] show ?thesis by simp
  qed
  have flag: "fst (acquire_lock dt s L now T R A p ttl0 True)
        = Inr (AcqCancelled ''Lock request was cancelled'') \<and>
      redis_get (snd (acquire_lock dt s L now T R A p ttl0 True)) (cancel_key_of T R A) = None \<and>
      redis_get (snd (acquire_lock dt s L now T R A p ttl0 True)) (lock_key_of T R)
        = redis_get s (lock_key_of T R)"
    if "redis_get s (cancel_key_of T R A) \<noteq> None"
    using that by (auto simp: acquire_lock_def acquire_script_def Let_def)
  from re twice flag show ?thesis by blast
qed

lemma get_cancel_lock_request:
  "redis_get (snd (cancel_lock_request s T R A)) k =
     (if zscore (zsets s (queue_key_of T R)) A \<noteq> None
      then (if k = agent_lock_key_of T R A then None else redis_get s k)
      else (if k = cancel_key_of T R A then Some ''1'' else redis_get s k))"
  by (simp add: cancel_lock_request_def cancel_script_def redis_zrem_def split_beta)

lemma held_store_queue: "zsets held_store k = []"
  by (simp add: held_store_def)

lemma held_store_holder:
  "redis_get held_store (lock_key_of ''customer'' ''123'') = Some ''agent_a''"
  by (simp add: held_store_def redis_get_def lock_key_of_def)

lemma held_store_mapping:
  "redis_get held_store (agent_lock_key_of ''customer'' ''123'' ''agent_a'') = Some ''L1''"
  by (simp add: held_store_def redis_get_def agent_lock_key_of_def)

lemma held_store_no_cancel:
  "redis_get held_store (cancel_key_of ''customer'' ''123'' ''agent_a'') = None"
  by (simp add: held_store_def redis_get_def cancel_key_of_def)

text \<open>
  Claim C3 promises \<^verbatim>\<open>already_owned\<close> for every re-entrant acquire of the holder. The
  script looks at the cancel flag first: in \<^verbatim>\<open>flagged_store\<close>, where \<^verbatim>\<open>agent_a\<close> holds the
  lock and has asked to cancel, its re-entrant acquire returns \<^verbatim>\<open>cancelled\<close>.
\<close>

theorem acquire_lock_reentrant_counterexample:
  "redis_get flagged_store (lock_key_of ''customer'' ''123'') = Some ''agent_a'' \<and>
   fst (acquire_lock 300 flagged_store ''L9'' now0 ''customer'' ''123'' ''agent_a'' 5 None True)
     = Inr (AcqCancelled ''Lock request was cancelled'')"
  by (simp add: flagged_store_def get_cancel_lock_request held_store_queue zscore_def
      held_store_holder acquire_lock_def acquire_script_def Let_def)

theorem acquire_lock_reentrant_witness:
  "fst (acquire_lock 300 held_store ''L9'' now0 ''customer'' ''123'' ''agent_a'' 5 (Some 120) True)
     = Inr (AlreadyOwned ''L1'' (Some 120)) \<and>
   strs (snd (acquire_lock 300 held_store ''L9'' now0 ''customer'' ''123'' ''agent_a'' 5 (Some 120) True))
     (lock_key_of ''customer'' ''123'') = Some (''agent_a'', Some 120) \<and>
   fst (acquire_lock 300 empty_store ''L1'' now0 ''customer'' ''123'' ''agent_a'' 5 None False)
     = Inr (Acquired ''L1'' (Some 300)) \<and>
   fst (acquire_lock 300
          (snd (acquire_lock 300 empty_store ''L1'' now0 ''customer'' ''123'' ''agent_a'' 5 None False))
          ''L9'' now0 ''customer'' ''123'' ''agent_a'' 5 None True)
     = Inr (AlreadyOwned ''L1'' (Some 300)) \<and>
   redis_get (snd (acquire_lock 300 flagged_store ''L9'' now0 ''customer'' ''123'' ''agent_a'' 5 None True))
     (cancel_key_of ''customer'' ''123'' ''agent_a'') = None"
proof -
  have first: "fst (acquire_lock 300 empty_store ''L1'' now0 ''customer'' ''123'' ''agent_a'' 5 None False)
     = Inr (Acquired ''L1'' (Some 300))"
    by (simp add: acquire_lock_def acquire_script_def acquire_or_queue_def Let_def
        effective_ttl_def redis_get_def empty_store_def set_ex_refused_def max_expire_def)
  have flagged: "redis_get flagged_store (cancel_key_of ''customer'' ''123'' ''agent_a'') \<noteq> None"
    by (simp add: flagged_store_def get_cancel_lock_request held_store_queue zscore_def)
  show ?thesis
    using first held_store_holder held_store_mapping held_store_no_cancel flagged
      acquire_lock_reentrant [of held_store "''customer''" "''123''" "''agent_a''" "''L1''" 300
        "Some 120" "''L9''" now0 5]
      acquire_lock_reentrant [of empty_store "''customer''" "''123''" "''agent_a''" "''L1''" 300
        None "''L9''" now0 5 "''L1''" now0 5 None False "''L1''" "Some 300"]
      acquire_lock_reentrant [of flagged_store "''customer''" "''123''" "''agent_a''" "''L1''" 300
        None "''L9''" now0 5]
    by (simp add: effective_ttl_def)
qed

section \<open>Release, read backwards from its result\<close>

lemma get_write_grant [simp]:
  "redis_get (write_grant s lk rt rid N L' ttl0 t) k =
     (if k = ''agent_lock:'' @ rt @ '':'' @ rid @ '':'' @ N then Some L'
      else if k = ''lock_meta:'' @ L' \<and> ttl0 \<le> 0 then None else redis_get s k)"
  by (simp add: write_grant_def Let_def)

lemma zsets_write_grant:
  "0 < ttl0 \<Longrightarrow> zsets (write_grant s lk rt rid N L' ttl0 t) = zsets s"
  by (simp add: write_grant_def Let_def)





section \<open>The two formats of \<^verbatim>\<open>acquired_at\<close>\<close>





lemmas dec_str_numeral =
  dec_str.simps [of "numeral n" for n] dec_str.simps [of "Suc 0"] dec_str.simps [of 0]



lemma handed_store_eq: "handed_store = snd (release_lock 300 queued_store 1730700000 ''L1'' None True)"
  by (simp add: handed_store_def)


section \<open>The HTTP endpoints\<close>

lemma acquire_lock_not_reentrant:
  "fst (acquire_lock dt s L now T R A p ttl0 False) \<noteq> Inr (AlreadyOwned L' e)"
  by (auto simp: acquire_lock_def acquire_script_def acquire_or_queue_def Let_def
      split: option.splits if_splits)

lemma http_response_Inr [simp]: "fst (http_response r) = Inr v \<longleftrightarrow> fst r = Inr v"
  by (cases r) (auto simp: http_response_def split: sum.splits error.splits)

lemma http_response_ok [simp]: "http_response (Inr v, s) = (Inr v, s)"
  by (simp add: http_response_def)

text \<open>
  Claim C9, amended: each endpoint forwards the fields of its request model and nothing
  else. The acquire endpoint forwards \<^verbatim>\<open>resource_type\<close>, \<^verbatim>\<open>resource_id\<close>, \<^verbatim>\<open>agent_id\<close>,
  \<^verbatim>\<open>priority\<close> and \<^verbatim>\<open>ttl\<close>; its request has no \<^verbatim>\<open>reentrant\<close> field, the engine is called
  with \<^verbatim>\<open>allow_reentrant=False\<close>, and the endpoint never answers \<^verbatim>\<open>already_owned\<close>. The
  release endpoint forwards \<^verbatim>\<open>lock_id\<close> and \<^verbatim>\<open>agent_id\<close>; its request has no \<^verbatim>\<open>idempotent\<close>
  field, and the mode of the engine's release is the same for every request. The cancel
  endpoint forwards its three fields.
\<close>

theorem endpoints_forward:
  "acquire_lock_endpoint s l now rq =
     http_response
       (acquire_lock 300 s l now (AcquireLockRequest.resource_type rq)
          (AcquireLockRequest.resource_id rq) (AcquireLockRequest.agent_id rq) (priority rq)
          (ttl rq) False) \<and>
   (\<exists>idempotent. \<forall>s t rr.
      release_lock_endpoint s t rr =
        http_response
          (release_lock 300 s t (lock_id rr) (ReleaseLockRequest.agent_id rr) idempotent)) \<and>
   cancel_lock_endpoint s rc =
     cancel_lock_request s (CancelLockRequest.resource_type rc) (CancelLockRequest.resource_id rc)
       (CancelLockRequest.agent_id rc) \<and>
   (\<forall>r. fst (acquire_lock_endpoint s l now rq) = Inr r \<longrightarrow> acquire_status r \<noteq> ''already_owned'')"
proof -
  have "acquire_status r \<noteq> ''already_owned''"
    if "fst (acquire_lock_endpoint s l now rq) = Inr r" for r
  proof (cases r)
    case (AlreadyOwned L' e)
    with that acquire_lock_not_reentrant [of 300 s l now "AcquireLockRequest.resource_type rq"
        "AcquireLockRequest.resource_id rq" "AcquireLockRequest.agent_id rq" "priority rq" "ttl rq" L' e]
    show ?thesis
      by (simp add: acquire_lock_endpoint_def)
  qed simp_all
  moreover have "\<exists>idempotent. \<forall>s t rr.
      release_lock_endpoint s t rr =
        http_response
          (release_lock 300 s t (lock_id rr) (ReleaseLockRequest.agent_id rr) idempotent)"
    by (rule exI [of _ True]) (simp add: release_lock_endpoint_def)
  ultimately show ?thesis
    by (simp add: acquire_lock_endpoint_def cancel_lock_endpoint_def)
qed

text \<open>
  Claim C9 says that the acquire endpoint takes the \<^verbatim>\<open>reentrant\<close> flag of the engine, so
  that a client can acquire re-entrantly. It does not: for the holder of \<^verbatim>\<open>held_store\<close>
  the engine's re-entrant acquire answers \<^verbatim>\<open>already_owned\<close>, and the endpoint, given the
  same resource, agent, priority and ttl, answers the error of a non-re-entrant acquire.
\<close>

theorem endpoints_forward_counterexample:
  "fst (acquire_lock 300 held_store ''L9'' now0 ''customer'' ''123'' ''agent_a'' 5 None True)
     = Inr (AlreadyOwned ''L1'' (Some 300)) \<and>
   fst (acquire_lock_endpoint held_store ''L9'' now0
          \<lparr>AcquireLockRequest.resource_type = ''customer'', AcquireLockRequest.resource_id = ''123'',
           AcquireLockRequest.agent_id = ''agent_a'',
           priority = 5, ttl = None\<rparr>)
     = Inr (AcqError ''Agent already holds this lock (re-entrancy not allowed)'')"
proof -
  have 1: "fst (acquire_lock 300 held_store ''L9'' now0 ''customer'' ''123'' ''agent_a'' 5 None True)
     = Inr (AlreadyOwned ''L1'' (Some 300))"
    using acquire_script_reentrant [OF held_store_holder held_store_no_cancel held_store_mapping,
        of 300]
    by (simp add: acquire_lock_def Let_def effective_ttl_def accepted_300)
  have 2: "fst (acquire_lock 300 held_store ''L9'' now0 ''customer'' ''123'' ''agent_a'' 5 None False)
     = Inr (AcqError ''Agent already holds this lock (re-entrancy not allowed)'')"
    using held_store_holder held_store_no_cancel
    by (simp add: acquire_lock_def acquire_script_def Let_def)
  show ?thesis
    using 1 2 by (simp add: acquire_lock_endpoint_def)
qed

theorem endpoints_forward_witness:
  "fst (acquire_lock_endpoint empty_store ''L1'' now0
          \<lparr>AcquireLockRequest.resource_type = ''customer'', AcquireLockRequest.resource_id = ''123'',
           AcquireLockRequest.agent_id = ''agent_a'',
           priority = 5, ttl = None\<rparr>) = Inr (Acquired ''L1'' (Some 300)) \<and>
   acquire_status (Acquired ''L1'' (Some 300)) \<noteq> ''already_owned''"
proof -
  have first: "fst (acquire_lock 300 empty_store ''L1'' now0 ''customer'' ''123'' ''agent_a'' 5 None False)
     = Inr (Acquired ''L1'' (Some 300))"
    by (simp add: acquire_lock_def acquire_script_def acquire_or_queue_def Let_def
        effective_ttl_def redis_get_def empty_store_def set_ex_refused_def max_expire_def)
  have e: "fst (acquire_lock_endpoint empty_store ''L1'' now0
          \<lparr>AcquireLockRequest.resource_type = ''customer'', AcquireLockRequest.resource_id = ''123'',
           AcquireLockRequest.agent_id = ''agent_a'',
           priority = 5, ttl = None\<rparr>) = Inr (Acquired ''L1'' (Some 300))"
    using first by (simp add: acquire_lock_endpoint_def)
  from e
    endpoints_forward [of empty_store "''L1''" now0
      "\<lparr>AcquireLockRequest.resource_type = ''customer'', AcquireLockRequest.resource_id = ''123'',
         AcquireLockRequest.agent_id = ''agent_a'', priority = 5, ttl = None\<rparr>",
      THEN conjunct2, THEN conjunct2, THEN conjunct2, THEN spec, THEN mp, OF e]
  show ?thesis by blast
qed

section \<open>Lock ids\<close>

lemma release_loop_get:
  "release_loop n s q rt rid = (s1, nxt) \<Longrightarrow> redis_get s1 k = Some v \<Longrightarrow> redis_get s k = Some v"
proof (induction n arbitrary: s)
  case 0
  then show ?case by simp
next
  case (Suc n)
  show ?case
  proof (cases "zpopmin (zsets s q)")
    case None
    with Suc.prems show ?thesis by simp
  next
    case (Some pr)
    obtain m sc remaining where pr: "pr = ((m, sc), remaining)" by (cases pr) auto
    let ?s1 = "s\<lparr>zsets := (zsets s)(q := remaining)\<rparr>"
    let ?ck = "''cancel:'' @ rt @ '':'' @ rid @ '':'' @ m"
    let ?ak = "''agent_lock:'' @ rt @ '':'' @ rid @ '':'' @ m"
    show ?thesis
    proof (cases "redis_get s ?ck")
      case None
      with Suc.prems Some pr show ?thesis
        by (auto simp: Let_def split: option.splits)
    next
      case (Some c)
      with Suc.prems \<open>zpopmin (zsets s q) = Some pr\<close> pr
      have "release_loop n (redis_del (redis_del ?s1 ?ck) ?ak) q rt rid = (s1, nxt)"
        by (simp add: Let_def)
      from Suc.IH [OF this Suc.prems(2)] show ?thesis
        by (simp split: if_splits)
    qed
  qed
qed



lemma zscore_empty [simp]: "zscore [] m = None"
  by (simp add: zscore_def)







lemma release_lock_handoff:
  assumes "redis_hgetall s (''lock_meta:'' @ L) = meta" "meta \<noteq> []"
    and "map_of meta ''lock_key'' = Some lk"
    and "map_of meta ''agent_id'' = Some owner"
    and "map_of meta ''resource_type'' = Some rt"
    and "map_of meta ''resource_id'' = Some rid"
    and "a = None \<or> a = Some owner"
    and "redis_get s lk = Some owner"
    and "release_loop 10 s (gsub_lock_queue lk) rt rid = (s1, Some (N, L'))"
    and "\<not> set_ex_refused (lua_tonumber dt)" and "redis_get s1 lk \<noteq> None"
    and "''lock_meta:'' @ L \<noteq> lk" and "''agent_lock:'' @ rt @ '':'' @ rid @ '':'' @ owner \<noteq> lk"
  shows "fst (release_lock dt s t L a idem) = Inr (Released (Some N) (Some L'))"
proof -
  have ag: "(case a of None \<Rightarrow> [] | Some x \<Rightarrow> x) = [] \<or> (case a of None \<Rightarrow> [] | Some x \<Rightarrow> x) = owner"
    using assms(7) by auto
  have "fst (release_script s (''lock_meta:'' @ L) (case a of None \<Rightarrow> [] | Some x \<Rightarrow> x) dt idem t)
      = Inr (1, N, L', [])"
    using release_script_held [OF assms(1-6) ag assms(8), of dt idem t]
      release_grant_granted [OF assms(10), of s1 lk "''lock_meta:'' @ L"
        "''agent_lock:'' @ rt @ '':'' @ rid @ '':'' @ owner"] assms(9,11,12,13)
    by simp
  then show ?thesis
    by (simp add: release_lock_def split_beta)
qed





section \<open>The queue that the release script reads\<close>

lemma gsub_lock: "gsub_lock_queue ''lock:lock:1'' = ''queue:queue:1''"
  by code_simp

text \<open>
  Claim C2 names as next agent the best waiter of the queue of the released resource.
  The release script does not read \<^verbatim>\<open>queue:T:R\<close> but the lock key with every
  \<^verbatim>\<open>lock:\<close> replaced by \<^verbatim>\<open>queue:\<close>; for the resource \<^verbatim>\<open>(lock, 1)\<close> that is
  \<^verbatim>\<open>queue:queue:1\<close>, the queue of the resource \<^verbatim>\<open>(queue, 1)\<close>. In \<^verbatim>\<open>crossed_store\<close> the
  only waiter of \<^verbatim>\<open>(lock, 1)\<close> is \<^verbatim>\<open>agent_b\<close>, with no cancel flag, and the release of
  \<^verbatim>\<open>L1\<close> hands \<^verbatim>\<open>(lock, 1)\<close> to \<^verbatim>\<open>agent_c\<close>, who waits for \<^verbatim>\<open>(queue, 1)\<close>.
\<close>

theorem release_reads_other_queue:
  "zmin (zsets crossed_store (queue_key_of ''lock'' ''1'')) = Some (''agent_b'', - 9) \<and>
   redis_get crossed_store (cancel_key_of ''lock'' ''1'' ''agent_b'') = None \<and>
   fst (release_lock 300 crossed_store 1730700000 ''L1'' None True)
     = Inr (Released (Some ''agent_c'') (Some ''fallback_1''))"
proof -
  have meta: "redis_hgetall crossed_store (''lock_meta:'' @ ''L1'') =
     [(''lock_key'', ''lock:lock:1''), (''agent_id'', ''agent_a''),
      (''lock_id'', ''L1''), (''acquired_at'', ''2026-11-04T09:05:07''),
      (''resource_type'', ''lock''), (''resource_id'', ''1'')]"
    by (simp add: crossed_store_def redis_hgetall_def)
  have holder: "redis_get crossed_store ''lock:lock:1'' = Some ''agent_a''"
    by (simp add: crossed_store_def redis_get_def)
  have pop: "zpopmin (zsets crossed_store ''queue:queue:1'') = Some ((''agent_c'', - 1), [])"
    by (simp add: crossed_store_def zpopmin_def zrem_def)
  have nc: "redis_get crossed_store (''cancel:'' @ ''lock'' @ '':'' @ ''1'' @ '':'' @ ''agent_c'') = None"
    by (simp add: crossed_store_def redis_get_def)
  have nm: "redis_get crossed_store (''agent_lock:'' @ ''lock'' @ '':'' @ ''1'' @ '':'' @ ''agent_c'') = None"
    by (simp add: crossed_store_def redis_get_def)
  have cnt: "lock_id_counter crossed_store = 0"
    by (simp add: crossed_store_def)
  have loop: "release_loop 10 crossed_store (gsub_lock_queue ''lock:lock:1'') ''lock'' ''1'' =
     (crossed_store\<lparr>zsets := (zsets crossed_store)(''queue:queue:1'' := []),
        lock_id_counter := lock_id_counter crossed_store + 1\<rparr>,
      Some (''agent_c'', ''fallback_1''))"
    using release_loop_fallback [OF pop nc nm, of 9]
    by (simp add: gsub_lock cnt dec_str_numeral digit_char_def)
  have rel: "fst (release_lock 300 crossed_store 1730700000 ''L1'' None True)
     = Inr (Released (Some ''agent_c'') (Some ''fallback_1''))"
    by (rule release_lock_handoff [OF meta _ _ _ _ _ _ _ loop]) (simp_all add: holder accepted_300)
  have q: "zmin (zsets crossed_store (queue_key_of ''lock'' ''1'')) = Some (''agent_b'', - 9)"
    by (simp add: crossed_store_def queue_key_of_def)
  have c: "redis_get crossed_store (cancel_key_of ''lock'' ''1'' ''agent_b'') = None"
    by (simp add: crossed_store_def redis_get_def cancel_key_of_def)
  from q c rel show ?thesis by simp
qed

section \<open>The handoff finds the lock key\<close>

text \<open>
  Lines 309 to 315 of the release script are written for a lock key that is gone when
  the handoff writes it. The script has read the key as held by the owner before its
  loop, and between that read and the write it deletes cancel flags, \<^verbatim>\<open>agent_lock\<close>
  mappings and the metadata hash, none of which is the lock key of a resource. With
  metadata whose lock key is the key of its resource, as the scripts write it, the
  branch is never taken.
\<close>

lemma release_loop_lock_key:
  "release_loop n s q rt rid = (s1, nxt) \<Longrightarrow>
     redis_get s1 (lock_key_of T R) = redis_get s (lock_key_of T R)"
proof (induction n arbitrary: s)
  case 0
  then show ?case by simp
next
  case (Suc n)
  show ?case
  proof (cases "zpopmin (zsets s q)")
    case None
    with Suc.prems show ?thesis by simp
  next
    case (Some pr)
    obtain m sc remaining where pr: "pr = ((m, sc), remaining)" by (cases pr) auto
    let ?s1 = "s\<lparr>zsets := (zsets s)(q := remaining)\<rparr>"
    let ?ck = "''cancel:'' @ rt @ '':'' @ rid @ '':'' @ m"
    let ?ak = "''agent_lock:'' @ rt @ '':'' @ rid @ '':'' @ m"
    show ?thesis
    proof (cases "redis_get s ?ck")
      case None
      with Suc.prems Some pr show ?thesis
        by (auto simp: Let_def split: option.splits)
    next
      case (Some c)
      with Suc.prems \<open>zpopmin (zsets s q) = Some pr\<close> pr
      have "release_loop n (redis_del (redis_del ?s1 ?ck) ?ak) q rt rid = (s1, nxt)"
        by (simp add: Let_def)
      from Suc.IH [OF this] show ?thesis
        by (simp add: lock_key_of_def)
    qed
  qed
qed

lemma release_grant_undefined_global:
  "fst (release_grant s mk lk qk oalk rt rid nxt dt t) = Inl (ResponseError UndefinedGlobal) \<Longrightarrow>
     redis_get (redis_del (redis_del s mk) oalk) lk = None"
  by (auto simp: release_grant_def Let_def split: option.splits if_splits)

lemma release_script_undefined_global:
  assumes "fst (release_script s mk ag dt idem t) = Inl (ResponseError UndefinedGlobal)"
  shows "\<exists>lk owner rt rid s1 nxt.
           map_of (redis_hgetall s mk) ''lock_key'' = Some lk \<and>
           map_of (redis_hgetall s mk) ''resource_type'' = Some rt \<and>
           map_of (redis_hgetall s mk) ''resource_id'' = Some rid \<and>
           redis_get s lk = Some owner \<and>
           release_loop 10 s (gsub_lock_queue lk) rt rid = (s1, nxt) \<and>
           redis_get (redis_del (redis_del s1 mk)
             (''agent_lock:'' @ rt @ '':'' @ rid @ '':'' @ owner)) lk = None"
proof -
  let ?meta = "redis_hgetall s mk"
  from assms obtain lk where lk: "map_of ?meta ''lock_key'' = Some lk"
    by (auto simp: release_script_def Let_def split: if_splits option.splits)
  from assms lk obtain owner where owner: "redis_get s lk = Some owner"
      "map_of ?meta ''agent_id'' = Some owner"
    by (auto simp: release_script_def Let_def split: if_splits option.splits)
  from assms lk owner obtain rt rid where r: "map_of ?meta ''resource_type'' = Some rt"
      "map_of ?meta ''resource_id'' = Some rid"
    by (auto simp: release_script_def Let_def split: if_splits option.splits)
  obtain s1 nxt where loop: "release_loop 10 s (gsub_lock_queue lk) rt rid = (s1, nxt)"
    by (cases "release_loop 10 s (gsub_lock_queue lk) rt rid")
  have "fst (release_grant s1 mk lk (gsub_lock_queue lk)
          (''agent_lock:'' @ rt @ '':'' @ rid @ '':'' @ owner) rt rid nxt dt t)
        = Inl (ResponseError UndefinedGlobal)"
    using assms lk owner r loop
    by (auto simp: release_script_def Let_def split: if_splits)
  from release_grant_undefined_global [OF this] lk owner r loop show ?thesis by blast
qed

lemma release_lock_no_undefined_global:
  assumes "meta_well_formed s L"
  shows "fst (release_lock dt s t L a idem) \<noteq> Inl (ResponseError UndefinedGlobal)"
proof
  assume "fst (release_lock dt s t L a idem) = Inl (ResponseError UndefinedGlobal)"
  then have "fst (release_script s (''lock_meta:'' @ L) (case a of None \<Rightarrow> [] | Some x \<Rightarrow> x) dt idem t)
      = Inl (ResponseError UndefinedGlobal)"
    by (auto simp: release_lock_def split: prod.splits sum.splits)
  from release_script_undefined_global [OF this] obtain lk owner rt rid s1 nxt where
    f: "map_of (redis_hgetall s (''lock_meta:'' @ L)) ''lock_key'' = Some lk"
      "map_of (redis_hgetall s (''lock_meta:'' @ L)) ''resource_type'' = Some rt"
      "map_of (redis_hgetall s (''lock_meta:'' @ L)) ''resource_id'' = Some rid"
      "redis_get s lk = Some owner"
      "release_loop 10 s (gsub_lock_queue lk) rt rid = (s1, nxt)"
      "redis_get (redis_del (redis_del s1 (''lock_meta:'' @ L))
         (''agent_lock:'' @ rt @ '':'' @ rid @ '':'' @ owner)) lk = None"
    by blast
  from assms f(1-3) have lk: "lk = lock_key_of rt rid"
    by (simp add: meta_well_formed_def)
  from release_loop_lock_key [OF f(5), of rt rid] f(4) lk
  have "redis_get s1 (lock_key_of rt rid) = Some owner" by simp
  with f(6) lk show False
    by (simp add: lock_key_of_def split: if_splits)
qed

lemma queued_store_well_formed: "meta_well_formed queued_store ''L1''"
  by (simp add: meta_well_formed_def queued_store_meta lock_key_of_def)

section \<open>The strings an operation writes\<close>

lemma release_loop_no_cancel:
  "release_loop n s q rt rid = (s1, Some (N, L')) \<Longrightarrow>
     redis_get s1 (''cancel:'' @ rt @ '':'' @ rid @ '':'' @ N) = None"
proof (induction n arbitrary: s)
  case 0
  then show ?case by simp
next
  case (Suc n)
  show ?case
  proof (cases "zpopmin (zsets s q)")
    case None
    with Suc.prems show ?thesis by simp
  next
    case (Some pr)
    obtain m sc remaining where pr: "pr = ((m, sc), remaining)" by (cases pr) auto
    let ?s1 = "s\<lparr>zsets := (zsets s)(q := remaining)\<rparr>"
    let ?ck = "''cancel:'' @ rt @ '':'' @ rid @ '':'' @ m"
    let ?ak = "''agent_lock:'' @ rt @ '':'' @ rid @ '':'' @ m"
    show ?thesis
    proof (cases "redis_get s ?ck")
      case None
      with Suc.prems Some pr show ?thesis
        by (auto simp: Let_def split: option.splits)
    next
      case (Some c)
      with Suc.prems \<open>zpopmin (zsets s q) = Some pr\<close> pr
      have "release_loop n (redis_del (redis_del ?s1 ?ck) ?ak) q rt rid = (s1, Some (N, L'))"
        by (simp add: Let_def)
      from Suc.IH [OF this] show ?thesis .
    qed
  qed
qed

lemma release_grant_get:
  assumes "redis_get (snd (release_grant s1 mk lk qk oalk rt rid nxt dt t)) k = Some v"
  shows "redis_get s1 k = Some v \<or>
         (\<exists>N L'. nxt = Some (N, L') \<and>
            (k = ''agent_lock:'' @ rt @ '':'' @ rid @ '':'' @ N \<or>
             (k = lk \<and> v = N \<and> redis_get s1 lk \<noteq> None)))"
  using assms
  by (auto simp: release_grant_def Let_def split: option.splits if_splits)

lemma release_script_get:
  assumes "release_script s mk ag dt idem t = (r, s')" and "redis_get s' k = Some v"
  shows "redis_get s k = Some v \<or>
         (\<exists>lk rt rid N.
            map_of (redis_hgetall s mk) ''lock_key'' = Some lk \<and>
            map_of (redis_hgetall s mk) ''resource_type'' = Some rt \<and>
            map_of (redis_hgetall s mk) ''resource_id'' = Some rid \<and>
            (k = ''agent_lock:'' @ rt @ '':'' @ rid @ '':'' @ N \<or>
             (k = lk \<and> v = N \<and> redis_get s lk \<noteq> None \<and>
              (lk \<noteq> ''cancel:'' @ rt @ '':'' @ rid @ '':'' @ N \<longrightarrow>
                 redis_get s' (''cancel:'' @ rt @ '':'' @ rid @ '':'' @ N) = None))))"
proof (cases "\<exists>lk owner rt rid. redis_hgetall s mk \<noteq> [] \<and>
    map_of (redis_hgetall s mk) ''lock_key'' = Some lk \<and>
    map_of (redis_hgetall s mk) ''agent_id'' = Some owner \<and>
    map_of (redis_hgetall s mk) ''resource_type'' = Some rt \<and>
    map_of (redis_hgetall s mk) ''resource_id'' = Some rid \<and>
    (ag = [] \<or> ag = owner) \<and> redis_get s lk = Some owner")
  case True
  then obtain lk owner rt rid where m: "redis_hgetall s mk \<noteq> []"
      "map_of (redis_hgetall s mk) ''lock_key'' = Some lk"
      "map_of (redis_hgetall s mk) ''agent_id'' = Some owner"
      "map_of (redis_hgetall s mk) ''resource_type'' = Some rt"
      "map_of (redis_hgetall s mk) ''resource_id'' = Some rid"
      "ag = [] \<or> ag = owner" "redis_get s lk = Some owner"
    by blast
  obtain s1 nxt where loop: "release_loop 10 s (gsub_lock_queue lk) rt rid = (s1, nxt)"
    by (cases "release_loop 10 s (gsub_lock_queue lk) rt rid")
  let ?oalk = "''agent_lock:'' @ rt @ '':'' @ rid @ '':'' @ owner"
  have g: "release_grant s1 mk lk (gsub_lock_queue lk) ?oalk rt rid nxt dt t = (r, s')"
    using release_script_held [OF refl m, of dt idem t] loop assms(1) by simp
  then have g': "redis_get (snd (release_grant s1 mk lk (gsub_lock_queue lk) ?oalk rt rid nxt dt t)) k
      = Some v"
    using assms(2) by simp
  from release_grant_get [OF g'] show ?thesis
  proof (elim disjE exE conjE)
    assume "redis_get s1 k = Some v"
    from release_loop_get [OF loop this] show ?thesis by simp
  next
    fix N L'
    assume n: "nxt = Some (N, L')" and k: "k = ''agent_lock:'' @ rt @ '':'' @ rid @ '':'' @ N"
    with m show ?thesis by blast
  next
    fix N L'
    assume n: "nxt = Some (N, L')" and k: "k = lk" "v = N" "redis_get s1 lk \<noteq> None"
    let ?ck = "''cancel:'' @ rt @ '':'' @ rid @ '':'' @ N"
    from k(3) obtain w where "redis_get s1 lk = Some w" by auto
    from release_loop_get [OF loop this] have present: "redis_get s lk \<noteq> None" by simp
    have nc: "redis_get s1 ?ck = None"
      using release_loop_no_cancel loop n by simp
    have "redis_get s' ?ck = None" if "lk \<noteq> ?ck"
    proof (rule ccontr)
      assume "redis_get s' ?ck \<noteq> None"
      then obtain w' where w': "redis_get s' ?ck = Some w'" by auto
      then have "redis_get (snd (release_grant s1 mk lk (gsub_lock_queue lk) ?oalk rt rid nxt dt t)) ?ck
          = Some w'"
        using g by simp
      from release_grant_get [OF this] nc that show False by auto
    qed
    with m k present show ?thesis by blast
  qed
next
  case False
  have "redis_get s k = Some v"
  proof (cases "redis_hgetall s mk = []")
    case True
    with assms show ?thesis by (auto simp: release_script_def split: if_splits)
  next
    case ne: False
    show ?thesis
    proof (cases "map_of (redis_hgetall s mk) ''lock_key''")
      case None
      with assms ne show ?thesis by (auto simp: release_script_def Let_def)
    next
      case (Some lk)
      show ?thesis
      proof (cases "redis_get s lk")
        case None
        with assms ne Some show ?thesis
          by (auto simp: release_script_def Let_def split: option.splits if_splits)
      next
        case (Some owner)
        show ?thesis
        proof (cases "ag = [] \<or> Some ag = map_of (redis_hgetall s mk) ''agent_id''")
          case ok: True
          show ?thesis
          proof (cases "Some owner = map_of (redis_hgetall s mk) ''agent_id''")
            case own: True
            have "map_of (redis_hgetall s mk) ''resource_type'' = None \<or>
                map_of (redis_hgetall s mk) ''resource_id'' = None"
              using False ne \<open>map_of (redis_hgetall s mk) ''lock_key'' = Some lk\<close> Some ok own
              by (metis option.exhaust option.inject)
            with assms ne \<open>map_of (redis_hgetall s mk) ''lock_key'' = Some lk\<close> Some ok own
            show ?thesis
              by (auto simp: release_script_def Let_def split: option.splits)
          next
            case False
            with assms ne \<open>map_of (redis_hgetall s mk) ''lock_key'' = Some lk\<close> Some ok
            show ?thesis
              by (auto simp: release_script_def Let_def)
          qed
        next
          case False
          with assms ne \<open>map_of (redis_hgetall s mk) ''lock_key'' = Some lk\<close> Some
          show ?thesis
            by (auto simp: release_script_def Let_def)
        qed
      qed
    qed
  qed
  then show ?thesis ..
qed

end
